theory Spec2Isabelle
  imports Complex_Main "HOL-Library.Sublist"
begin

section \<open>Exceptions\<close>

text \<open>
  The Python exceptions the modelled code can raise. \<open>RateLimitError\<close> is the class
  of \<^verbatim>\<open>server.py\<close>; \<open>HTTPStatusError\<close> is what \<^verbatim>\<open>raise_for_status()\<close> raises,
  \<open>RequestError\<close> a transport failure of the HTTP client, \<open>JSONDecodeError\<close> a body
  that \<^verbatim>\<open>.json()\<close> cannot decode; the others are the interpreter's own.
\<close>

datatype error =
    RateLimitError
  | HTTPStatusError
  | RequestError
  | JSONDecodeError
  | AttributeError
  | TypeError
  | KeyError
  | IndexError
  | ValueError

section \<open>The rate limiter (\<^verbatim>\<open>server.py\<close>, class \<^verbatim>\<open>RateLimit\<close>)\<close>

text \<open>
  The dataclass \<^verbatim>\<open>RateLimit\<close>. The dictionary \<^verbatim>\<open>_requests\<close> has exactly the keys
  \<^verbatim>\<open>"second"\<close> and \<^verbatim>\<open>"month"\<close>; they are the fields \<open>requests_second\<close> and
  \<open>requests_month\<close>. Python integers are unbounded (\<open>int\<close>); the readings of
  \<^verbatim>\<open>time.time()\<close> are taken as real numbers.
\<close>

record RateLimit =
  per_second :: int
  per_month :: int
  requests_second :: int
  requests_month :: int
  last_reset :: real

text \<open>\<^verbatim>\<open>__post_init__\<close>, run at time \<open>now\<close>; the limits default to 1 and 2000.\<close>

definition post_init :: "int \<Rightarrow> int \<Rightarrow> real \<Rightarrow> RateLimit" where
  "post_init ps pm now =
     \<lparr>per_second = ps, per_month = pm, requests_second = 0, requests_month = 0,
      last_reset = now\<rparr>"

definition default_RateLimit :: "real \<Rightarrow> RateLimit" where
  "default_RateLimit now = post_init 1 2000 now"

text \<open>
  \<^verbatim>\<open>RateLimit.check\<close>, with the reading \<open>now\<close> of the clock as an argument. The
  result is the outcome (\<open>Inl RateLimitError\<close> for the raise) and the object after the
  call: the reset of the short window is done before the test, so it stays done when
  the call raises.
\<close>

definition check :: "real \<Rightarrow> RateLimit \<Rightarrow> (error + unit) \<times> RateLimit" where
  "check now r =
     (let r1 = (if now - last_reset r > 1
                then r\<lparr>requests_second := 0, last_reset := now\<rparr>
                else r)
      in if requests_second r1 \<ge> per_second r1 \<or> requests_month r1 \<ge> per_month r1
         then (Inl RateLimitError, r1)
         else (Inr (),
               r1\<lparr>requests_second := requests_second r1 + 1,
                  requests_month := requests_month r1 + 1\<rparr>))"

text \<open>A run of calls of \<open>check\<close>, one per clock reading, with the outcome of each.\<close>

fun check_all :: "real list \<Rightarrow> RateLimit \<Rightarrow> (error + unit) list \<times> RateLimit" where
  "check_all [] r = ([], r)"
| "check_all (t # ts) r =
     (case check t r of (res, r') \<Rightarrow>
        (case check_all ts r' of (ress, r'') \<Rightarrow> (res # ress, r'')))"

subsection \<open>The reference step function of the specification\<close>

text \<open>
  The specification's data model: a governor owns two windows and two ceilings. Its
  \<open>admit\<close> is written here from the specification's words (section 4.1), to be
  compared with \<open>check\<close>.
\<close>

record RateWindow =
  windowCount :: int
  windowStart :: real

record RateGovernor =
  short :: RateWindow
  long :: RateWindow
  shortLimit :: int
  longLimit :: int

datatype admission = Ok | RateLimitExceeded

definition admit :: "real \<Rightarrow> RateGovernor \<Rightarrow> admission \<times> RateGovernor" where
  "admit now g =
     (let g1 = (if now - windowStart (short g) > 1
                then g\<lparr>short := \<lparr>windowCount = 0, windowStart = now\<rparr>\<rparr>
                else g)
      in if windowCount (short g1) \<ge> shortLimit g1 \<or> windowCount (long g1) \<ge> longLimit g1
         then (RateLimitExceeded, g1)
         else (Ok, g1\<lparr>short := (short g1)\<lparr>windowCount := windowCount (short g1) + 1\<rparr>,
                      long := (long g1)\<lparr>windowCount := windowCount (long g1) + 1\<rparr>\<rparr>))"

text \<open>
  The governor a \<open>RateLimit\<close> object stands for. The object keeps no start of the
  long window (it is never reset); \<open>lw\<close> is that start, the same before and after
  every call.
\<close>

definition governor_of :: "real \<Rightarrow> RateLimit \<Rightarrow> RateGovernor" where
  "governor_of lw r =
     \<lparr>short = \<lparr>windowCount = requests_second r, windowStart = last_reset r\<rparr>,
      long = \<lparr>windowCount = requests_month r, windowStart = lw\<rparr>,
      shortLimit = per_second r, longLimit = per_month r\<rparr>"

fun admission_of :: "error + unit \<Rightarrow> admission" where
  "admission_of (Inr u) = Ok"
| "admission_of (Inl e) = RateLimitExceeded"

section \<open>Decoded JSON values and the Python operations on them\<close>

text \<open>
  What \<^verbatim>\<open>response.json()\<close> returns: \<open>JNull\<close> is \<^verbatim>\<open>None\<close>, a \<open>JArr\<close> a list, a
  \<open>JObj\<close> a dict in insertion order with distinct keys. A \<^verbatim>\<open>str\<close> is the list of
  its characters, so the model covers the strings whose code points are below 256.
\<close>

datatype json =
    JNull
  | JBool bool
  | JNum real
  | JStr string
  | JArr "json list"
  | JObj "(string \<times> json) list"

text \<open>Sequencing of computations that may raise.\<close>

fun bind_err :: "error + 'a \<Rightarrow> ('a \<Rightarrow> error + 'b) \<Rightarrow> error + 'b" where
  "bind_err (Inl e) f = Inl e"
| "bind_err (Inr a) f = f a"

text \<open>A \<^verbatim>\<open>for\<close> loop or comprehension whose body may raise: the first raise ends it.\<close>

fun map_err :: "('a \<Rightarrow> error + 'b) \<Rightarrow> 'a list \<Rightarrow> error + 'b list" where
  "map_err f [] = Inr []"
| "map_err f (x # xs) =
     bind_err (f x) (\<lambda>y. bind_err (map_err f xs) (\<lambda>ys. Inr (y # ys)))"

text \<open>Truth value of an object (\<^verbatim>\<open>not x\<close>, \<^verbatim>\<open>x or y\<close>, \<^verbatim>\<open>filter(None, xs)\<close>).\<close>

fun py_truth :: "json \<Rightarrow> bool" where
  "py_truth JNull = False"
| "py_truth (JBool b) = b"
| "py_truth (JNum x) = (x \<noteq> 0)"
| "py_truth (JStr s) = (s \<noteq> [])"
| "py_truth (JArr xs) = (xs \<noteq> [])"
| "py_truth (JObj kvs) = (kvs \<noteq> [])"

definition py_or :: "json \<Rightarrow> json \<Rightarrow> json" where
  "py_or x y = (if py_truth x then x else y)"

text \<open>\<^verbatim>\<open>x.get(k, d)\<close> with a string key: only a dict has the method.\<close>

fun py_get :: "json \<Rightarrow> string \<Rightarrow> json \<Rightarrow> error + json" where
  "py_get (JObj kvs) k d = Inr (case map_of kvs k of Some v \<Rightarrow> v | None \<Rightarrow> d)"
| "py_get x k d = Inl AttributeError"

text \<open>
  \<^verbatim>\<open>d.get(key, dflt)\<close> on a dict \<open>d\<close> with a key that is itself a decoded value: a
  list or dict key is unhashable; a key that is no string equals no key of a decoded
  JSON object.
\<close>

fun dict_get_key :: "(string \<times> json) list \<Rightarrow> json \<Rightarrow> json \<Rightarrow> error + json" where
  "dict_get_key kvs (JStr k) d = Inr (case map_of kvs k of Some v \<Rightarrow> v | None \<Rightarrow> d)"
| "dict_get_key kvs (JArr xs) d = Inl TypeError"
| "dict_get_key kvs (JObj xs) d = Inl TypeError"
| "dict_get_key kvs x d = Inr d"

text \<open>\<^verbatim>\<open>len(x)\<close>.\<close>

fun py_len :: "json \<Rightarrow> error + int" where
  "py_len (JStr s) = Inr (int (length s))"
| "py_len (JArr xs) = Inr (int (length xs))"
| "py_len (JObj kvs) = Inr (int (length kvs))"
| "py_len x = Inl TypeError"

text \<open>
  The elements \<^verbatim>\<open>for e in x\<close> visits: those of a list, the characters of a string,
  the keys of a dict.
\<close>

fun py_iter :: "json \<Rightarrow> error + json list" where
  "py_iter (JArr xs) = Inr xs"
| "py_iter (JStr s) = Inr (map (\<lambda>c. JStr [c]) s)"
| "py_iter (JObj kvs) = Inr (map (\<lambda>kv. JStr (fst kv)) kvs)"
| "py_iter x = Inl TypeError"

text \<open>\<^verbatim>\<open>a in b\<close> for strings: \<open>a\<close> occurs in \<open>b\<close> as a contiguous substring.\<close>

fun str_in :: "string \<Rightarrow> string \<Rightarrow> bool" where
  "str_in a [] = (a = [])"
| "str_in a (c # cs) = (prefix a (c # cs) \<or> str_in a cs)"

text \<open>
  \<^verbatim>\<open>k in x\<close> for a string \<open>k\<close>: a key of a dict, a substring of a string, an element
  of a list.
\<close>

fun py_in :: "string \<Rightarrow> json \<Rightarrow> error + bool" where
  "py_in k (JObj kvs) = Inr (map_of kvs k \<noteq> None)"
| "py_in k (JStr s) = Inr (str_in k s)"
| "py_in k (JArr xs) = Inr (List.member xs (JStr k))"
| "py_in k x = Inl TypeError"

text \<open>\<^verbatim>\<open>x[k]\<close> for a string \<open>k\<close>: a missing key of a dict is a \<^verbatim>\<open>KeyError\<close>.\<close>

fun py_index :: "json \<Rightarrow> string \<Rightarrow> error + json" where
  "py_index (JObj kvs) k = (case map_of kvs k of Some v \<Rightarrow> Inr v | None \<Rightarrow> Inl KeyError)"
| "py_index x k = Inl TypeError"

text \<open>\<^verbatim>\<open>x[0]\<close>. A decoded dict has string keys only, so \<open>0\<close> is never one of them.\<close>

fun py_index0 :: "json \<Rightarrow> error + json" where
  "py_index0 (JArr (x # xs)) = Inr x"
| "py_index0 (JArr []) = Inl IndexError"
| "py_index0 (JStr (c # cs)) = Inr (JStr [c])"
| "py_index0 (JStr []) = Inl IndexError"
| "py_index0 (JObj kvs) = Inl KeyError"
| "py_index0 x = Inl TypeError"

text \<open>\<^verbatim>\<open>xs.extend(y)\<close> on a list \<open>xs\<close>.\<close>

definition list_extend :: "json list \<Rightarrow> json \<Rightarrow> error + json list" where
  "list_extend xs y = bind_err (py_iter y) (\<lambda>ys. Inr (xs @ ys))"

text \<open>\<^verbatim>\<open>x.extend(y)\<close> on any object: only a list has the method.\<close>

fun py_extend :: "json \<Rightarrow> json \<Rightarrow> error + json" where
  "py_extend (JArr xs) y = bind_err (list_extend xs y) (\<lambda>zs. Inr (JArr zs))"
| "py_extend x y = Inl AttributeError"

text \<open>
  \<^verbatim>\<open>xs[:n]\<close> on a list: the first \<open>n\<close> elements, and for a negative \<open>n\<close> all but the
  last \<open>-n\<close>.
\<close>

definition list_slice_to :: "'a list \<Rightarrow> int \<Rightarrow> 'a list" where
  "list_slice_to xs n =
     (if 0 \<le> n then take (nat n) xs else take (length xs - nat (- n)) xs)"

text \<open>
  \<^verbatim>\<open>x[:n]\<close> on any object. A dict cannot be sliced: the slice is an unhashable key (a
  \<^verbatim>\<open>TypeError\<close>; a \<^verbatim>\<open>KeyError\<close> from Python 3.12 on, where slices are hashable).
\<close>

fun py_slice_to :: "json \<Rightarrow> int \<Rightarrow> error + json" where
  "py_slice_to (JArr xs) n = Inr (JArr (list_slice_to xs n))"
| "py_slice_to (JStr s) n = Inr (JStr (list_slice_to s n))"
| "py_slice_to x n = Inl TypeError"

text \<open>\<^verbatim>\<open>sep.join(xs)\<close> on strings.\<close>

fun join :: "string \<Rightarrow> string list \<Rightarrow> string" where
  "join sep [] = []"
| "join sep [x] = x"
| "join sep (x # y # ys) = x @ sep @ join sep (y # ys)"

text \<open>\<^verbatim>\<open>sep.join(xs)\<close> on a list of objects: every one has to be a string.\<close>

fun the_str :: "json \<Rightarrow> error + string" where
  "the_str (JStr s) = Inr s"
| "the_str x = Inl TypeError"

definition join_values :: "string \<Rightarrow> json list \<Rightarrow> error + string" where
  "join_values sep xs = bind_err (map_err the_str xs) (\<lambda>ss. Inr (join sep ss))"

text \<open>\<^verbatim>\<open>sep.join(x)\<close> on any object: it is iterated first.\<close>

definition py_join :: "string \<Rightarrow> json \<Rightarrow> error + string" where
  "py_join sep x = bind_err (py_iter x) (join_values sep)"

text \<open>
  Functions of the Python library that the code calls and that are not part of the
  repository: \<open>pystr\<close> is \<^verbatim>\<open>str()\<close> on a decoded value, as an f-string applies it
  (the identity on a string); \<open>lower\<close> is \<^verbatim>\<open>str.lower\<close>; \<open>urlparse_hostname u\<close> is
  \<^verbatim>\<open>urlparse(u).hostname\<close>, which may raise and may be \<^verbatim>\<open>None\<close>.
\<close>

record pylib =
  pystr :: "json \<Rightarrow> string"
  lower :: "string \<Rightarrow> string"
  urlparse_hostname :: "json \<Rightarrow> error + string option"

section \<open>The HTTP client and the world outside\<close>

text \<open>
  A request: the URL and the query parameters (the headers are the same on every
  request). A response: its status code, and its body as \<^verbatim>\<open>.json()\<close> decodes it
  (\<open>None\<close> when it cannot).
\<close>

record request =
  url :: string
  params :: "(string \<times> json) list"

record response =
  status_code :: nat
  body :: "json option"

text \<open>
  The world the program runs in, of any type \<open>'w\<close>: \<open>clock\<close> is what \<^verbatim>\<open>time.time()\<close>
  reads, \<open>http_get\<close> what a GET request does to the world and what comes back, a
  response or the exception the client raises.
\<close>

record 'w env =
  clock :: "'w \<Rightarrow> real"
  http_get :: "request \<Rightarrow> 'w \<Rightarrow> (error + response) \<times> 'w"

text \<open>\<^verbatim>\<open>response.raise_for_status()\<close>: any status outside 200..299 raises.\<close>

definition raise_for_status :: "response \<Rightarrow> error + unit" where
  "raise_for_status resp =
     (if 200 \<le> status_code resp \<and> status_code resp < 300 then Inr ()
      else Inl HTTPStatusError)"

text \<open>\<^verbatim>\<open>response.json()\<close>.\<close>

definition json_of :: "response \<Rightarrow> error + json" where
  "json_of resp = (case body resp of None \<Rightarrow> Inl JSONDecodeError | Some j \<Rightarrow> Inr j)"

section \<open>The server (\<^verbatim>\<open>server.py\<close>, class \<^verbatim>\<open>BraveSearchServer\<close>)\<close>

text \<open>
  The state a tool call runs in: the server's \<^verbatim>\<open>rate_limit\<close> object and the world.
  \<open>trace\<close> is no field of the class: it is the history of the run, every call of
  \<^verbatim>\<open>rate_limit.check()\<close> with its outcome and every request issued, in order.
\<close>

datatype event = Check "error + unit" | Get request

record 'w server =
  rate_limit :: RateLimit
  world :: 'w
  trace :: "event list"

text \<open>A piece of the program: from a state to a result, or a raise, and the state after.\<close>

type_synonym ('w, 'a) prog = "'w server \<Rightarrow> (error + 'a) \<times> 'w server"

definition and_then :: "('w, 'a) prog \<Rightarrow> ('a \<Rightarrow> ('w, 'b) prog) \<Rightarrow> ('w, 'b) prog" where
  "and_then m f s = (case m s of (Inl e, s') \<Rightarrow> (Inl e, s') | (Inr a, s') \<Rightarrow> f a s')"

definition ret :: "'a \<Rightarrow> ('w, 'a) prog" where
  "ret a s = (Inr a, s)"

definition lift :: "error + 'a \<Rightarrow> ('w, 'a) prog" where
  "lift x s = (x, s)"

text \<open>\<^verbatim>\<open>self.rate_limit.check()\<close>, at the time the clock shows.\<close>

definition rate_limit_check :: "'w env \<Rightarrow> ('w, unit) prog" where
  "rate_limit_check env s =
     (case check (clock env (world s)) (rate_limit s) of
        (res, r') \<Rightarrow> (res, s\<lparr>rate_limit := r', trace := trace s @ [Check res]\<rparr>))"

text \<open>\<^verbatim>\<open>await client.get(url, params=...)\<close>.\<close>

definition client_get :: "'w env \<Rightarrow> request \<Rightarrow> ('w, response) prog" where
  "client_get env req s =
     (case http_get env req (world s) of
        (res, w') \<Rightarrow> (res, s\<lparr>world := w', trace := trace s @ [Get req]\<rparr>))"

definition base_url :: string where
  "base_url = ''https://api.search.brave.com/res/v1''"

definition newline :: string where
  "newline = [CHR 0x0A]"

subsection \<open>Web search\<close>

text \<open>\<^verbatim>\<open>data.get("web", {}).get("results", [])\<close>.\<close>

definition web_results_of :: "json \<Rightarrow> error + json" where
  "web_results_of data =
     bind_err (py_get data ''web'' (JObj [])) (\<lambda>w. py_get w ''results'' (JArr []))"

text \<open>The request of one more page of web results, as the loop below builds it.\<close>

definition web_page_request :: "json \<Rightarrow> int \<Rightarrow> request" where
  "web_page_request q offset =
     \<lparr>url = base_url @ ''/web/search'',
      params = [(''q'', q), (''count'', JNum 20), (''offset'', JNum (real_of_int offset))]\<rparr>"

text \<open>
  The \<^verbatim>\<open>while\<close> loop of \<^verbatim>\<open>_format_web_results\<close> (lines 191 to 198), from the test of
  its guard on: \<open>web_results\<close> and \<open>offset\<close> are the loop's variables.
\<close>

function web_backfill ::
  "'w env \<Rightarrow> json \<Rightarrow> int \<Rightarrow> json \<Rightarrow> int \<Rightarrow> ('w, json) prog" where
  "web_backfill env data min_results web_results offset =
     and_then (lift (py_len web_results)) (\<lambda>n.
       if n < min_results \<and> offset < 40 then
         and_then (lift (py_get data ''query'' (JStr []))) (\<lambda>q.
         and_then (client_get env (web_page_request q (offset + 20))) (\<lambda>additional_response.
         and_then (lift (json_of additional_response)) (\<lambda>additional_data.
         and_then (lift (bind_err (web_results_of additional_data)
                           (py_extend web_results))) (\<lambda>web_results'.
           web_backfill env data min_results web_results' (offset + 20)))))
       else ret web_results)"
  by pat_completeness auto
termination
  by (relation "measure (\<lambda>(env, data, min_results, web_results, offset). nat (40 - offset))")
    auto

text \<open>One formatted block of \<^verbatim>\<open>_format_web_results\<close> (lines 202 to 206).\<close>

definition web_block :: "pylib \<Rightarrow> json \<Rightarrow> error + string" where
  "web_block lib result =
     bind_err (py_get result ''title'' (JStr ''N/A'')) (\<lambda>title.
     bind_err (py_get result ''description'' (JStr ''N/A'')) (\<lambda>description.
     bind_err (py_get result ''url'' (JStr ''N/A'')) (\<lambda>u.
       Inr (''Title: '' @ pystr lib title @ newline
            @ ''Description: '' @ pystr lib description @ newline
            @ ''URL: '' @ pystr lib u))))"

text \<open>
  The list \<^verbatim>\<open>results\<close> that \<^verbatim>\<open>_format_web_results\<close> builds, before it is joined:
  the first page's results, the loop when they are fewer than \<open>min_results\<close>, then
  one block for each element of the slice.
\<close>

definition web_result_blocks ::
  "'w env \<Rightarrow> pylib \<Rightarrow> json \<Rightarrow> int \<Rightarrow> ('w, string list) prog" where
  "web_result_blocks env lib data min_results =
     and_then (lift (web_results_of data)) (\<lambda>web_results.
     and_then (lift (py_len web_results)) (\<lambda>n.
     and_then (if n < min_results
               then web_backfill env data min_results web_results 0
               else ret web_results) (\<lambda>web_results.
     and_then (lift (py_len web_results)) (\<lambda>n'.
     and_then (lift (py_slice_to web_results (max min_results n'))) (\<lambda>sl.
     and_then (lift (py_iter sl)) (\<lambda>items.
       lift (map_err (web_block lib) items)))))))"

text \<open>\<^verbatim>\<open>_format_web_results\<close>: what the coroutine does when it is run.\<close>

definition format_web_results ::
  "'w env \<Rightarrow> pylib \<Rightarrow> json \<Rightarrow> int \<Rightarrow> ('w, string) prog" where
  "format_web_results env lib data min_results =
     and_then (web_result_blocks env lib data min_results) (\<lambda>results.
       ret (join (newline @ newline) results))"

text \<open>\<^verbatim>\<open>min(offset, 9)\<close> for the optional argument: \<^verbatim>\<open>None\<close> does not compare.\<close>

fun min_offset :: "int option \<Rightarrow> error + int" where
  "min_offset None = Inl TypeError"
| "min_offset (Some offset) = Inr (min offset 9)"

text \<open>The first request of \<^verbatim>\<open>brave_web_search\<close> (lines 80 to 90).\<close>

definition web_search_request :: "string \<Rightarrow> int \<Rightarrow> request" where
  "web_search_request query off =
     \<lparr>url = base_url @ ''/web/search'',
      params = [(''q'', JStr query), (''count'', JNum 20),
                (''offset'', JNum (real_of_int off))]\<rparr>"

text \<open>
  The tool \<^verbatim>\<open>brave_web_search\<close>. Its last line returns the coroutine of
  \<^verbatim>\<open>_format_web_results\<close> without awaiting it: the result of the tool is that
  coroutine, not yet run. The argument \<^verbatim>\<open>count\<close> is never read.
\<close>

definition brave_web_search ::
  "'w env \<Rightarrow> pylib \<Rightarrow> string \<Rightarrow> int option \<Rightarrow> int option \<Rightarrow> ('w, ('w, string) prog) prog" where
  "brave_web_search env lib query count offset =
     and_then (rate_limit_check env) (\<lambda>_.
     and_then (lift (min_offset offset)) (\<lambda>off.
     and_then (client_get env (web_search_request query off)) (\<lambda>resp.
     and_then (lift (raise_for_status resp)) (\<lambda>_.
     and_then (lift (json_of resp)) (\<lambda>data.
       ret (format_web_results env lib data 10))))))"

text \<open>The tool, followed by a run of the coroutine it returns.\<close>

definition web_search_awaited ::
  "'w env \<Rightarrow> pylib \<Rightarrow> string \<Rightarrow> int option \<Rightarrow> int option \<Rightarrow> ('w, string) prog" where
  "web_search_awaited env lib query count offset =
     and_then (brave_web_search env lib query count offset) (\<lambda>coroutine. coroutine)"

subsection \<open>Local search\<close>

text \<open>
  The comprehension of \<^verbatim>\<open>_extract_location_ids\<close> over the elements it visits: an
  element is kept when \<^verbatim>\<open>"id" in result\<close>, and what is kept is \<^verbatim>\<open>result["id"]\<close>.
\<close>

fun ids_of_results :: "json list \<Rightarrow> error + json list" where
  "ids_of_results [] = Inr []"
| "ids_of_results (result # rest) =
     bind_err (py_in ''id'' result) (\<lambda>has_id.
       if has_id
       then bind_err (py_index result ''id'') (\<lambda>i.
              bind_err (ids_of_results rest) (\<lambda>ids. Inr (i # ids)))
       else ids_of_results rest)"

text \<open>\<^verbatim>\<open>_extract_location_ids\<close>.\<close>

definition extract_location_ids :: "json \<Rightarrow> error + json list" where
  "extract_location_ids data =
     bind_err (py_get data ''locations'' (JObj [])) (\<lambda>locations.
     bind_err (py_get locations ''results'' (JArr [])) (\<lambda>results.
     bind_err (py_iter results) ids_of_results))"

text \<open>The request of one more page of locations (lines 135 to 144).\<close>

definition location_page_request :: "string \<Rightarrow> int \<Rightarrow> request" where
  "location_page_request query offset =
     \<lparr>url = base_url @ ''/web/search'',
      params = [(''q'', JStr query), (''search_lang'', JStr ''en''),
                (''result_filter'', JStr ''locations''), (''count'', JNum 20),
                (''offset'', JNum (real_of_int offset))]\<rparr>"

text \<open>
  The \<^verbatim>\<open>while\<close> loop of \<^verbatim>\<open>brave_local_search\<close> (lines 133 to 146), from the test of
  its guard on.
\<close>

function local_backfill ::
  "'w env \<Rightarrow> string \<Rightarrow> json list \<Rightarrow> int \<Rightarrow> ('w, json list) prog" where
  "local_backfill env query location_ids offset =
     (if int (length location_ids) < 10 \<and> offset < 40 then
        and_then (client_get env (location_page_request query (offset + 20)))
          (\<lambda>additional_response.
        and_then (lift (json_of additional_response)) (\<lambda>additional_data.
        and_then (lift (extract_location_ids additional_data)) (\<lambda>additional_ids.
          local_backfill env query (location_ids @ additional_ids) (offset + 20))))
      else ret location_ids)"
  by pat_completeness auto
termination
  by (relation "measure (\<lambda>(env, query, location_ids, offset). nat (40 - offset))") auto

text \<open>
  \<^verbatim>\<open>asyncio.gather\<close> of two requests: both are issued, and the first exception, if
  any, is raised once they are done. The model issues them one after the other, and
  when both fail it raises the first one's exception.
\<close>

definition gather_get :: "'w env \<Rightarrow> request \<Rightarrow> request \<Rightarrow> ('w, response \<times> response) prog" where
  "gather_get env req1 req2 s =
     (case http_get env req1 (world s) of (res1, w1) \<Rightarrow>
      case http_get env req2 w1 of (res2, w2) \<Rightarrow>
        (bind_err res1 (\<lambda>resp1. bind_err res2 (\<lambda>resp2. Inr (resp1, resp2))),
         s\<lparr>world := w2, trace := trace s @ [Get req1, Get req2]\<rparr>))"

text \<open>The two requests of \<^verbatim>\<open>_get_location_details\<close>.\<close>

definition pois_request :: "json list \<Rightarrow> request" where
  "pois_request ids = \<lparr>url = base_url @ ''/local/pois'', params = [(''ids'', JArr ids)]\<rparr>"

definition descriptions_request :: "json list \<Rightarrow> request" where
  "descriptions_request ids =
     \<lparr>url = base_url @ ''/local/descriptions'', params = [(''ids'', JArr ids)]\<rparr>"

text \<open>\<^verbatim>\<open>_get_location_details\<close>.\<close>

definition get_location_details :: "'w env \<Rightarrow> json list \<Rightarrow> ('w, json \<times> json) prog" where
  "get_location_details env ids =
     and_then (gather_get env (pois_request ids) (descriptions_request ids))
       (\<lambda>(pois_response, desc_response).
     and_then (lift (json_of pois_response)) (\<lambda>pois.
     and_then (lift (json_of desc_response)) (\<lambda>descriptions.
       ret (pois, descriptions))))"

text \<open>\<^verbatim>\<open>s or "N/A"\<close> on a string.\<close>

definition or_NA :: "string \<Rightarrow> string" where
  "or_NA s = (if s = [] then ''N/A'' else s)"

text \<open>\<^verbatim>\<open>_format_address\<close>.\<close>

definition format_address :: "json \<Rightarrow> error + string" where
  "format_address addr =
     bind_err (py_get addr ''streetAddress'' (JStr [])) (\<lambda>c1.
     bind_err (py_get addr ''addressLocality'' (JStr [])) (\<lambda>c2.
     bind_err (py_get addr ''addressRegion'' (JStr [])) (\<lambda>c3.
     bind_err (py_get addr ''postalCode'' (JStr [])) (\<lambda>c4.
     bind_err (join_values '', '' (filter py_truth [c1, c2, c3, c4])) (\<lambda>s.
       Inr (or_NA s))))))"

text \<open>\<^verbatim>\<open>_format_rating\<close>.\<close>

definition format_rating :: "pylib \<Rightarrow> json \<Rightarrow> error + string" where
  "format_rating lib rating =
     (if \<not> py_truth rating then Inr ''N/A''
      else bind_err (py_get rating ''ratingValue'' (JStr ''N/A'')) (\<lambda>v.
           bind_err (py_get rating ''ratingCount'' (JNum 0)) (\<lambda>c.
             Inr (pystr lib v @ '' ('' @ pystr lib c @ '' reviews)''))))"

text \<open>
  The lookup \<^verbatim>\<open>descriptions.get("descriptions", {}).get(poi["id"], "No description
  available")\<close>: the inner \<^verbatim>\<open>get\<close> is found on its object before \<^verbatim>\<open>poi["id"]\<close> is
  evaluated.
\<close>

definition description_of :: "json \<Rightarrow> json \<Rightarrow> error + json" where
  "description_of descriptions poi =
     bind_err (py_get descriptions ''descriptions'' (JObj [])) (\<lambda>ds.
       case ds of
         JObj kvs \<Rightarrow>
           bind_err (py_index poi ''id'') (\<lambda>i.
             dict_get_key kvs i (JStr ''No description available''))
       | _ \<Rightarrow> Inl AttributeError)"

text \<open>
  One turn of the loop of \<^verbatim>\<open>_format_local_results\<close> (lines 217 to 237): the dict
  \<^verbatim>\<open>location\<close>, its values computed in the order written, and the block made of it.
\<close>

definition local_block :: "pylib \<Rightarrow> json \<Rightarrow> json \<Rightarrow> error + string" where
  "local_block lib descriptions poi =
     bind_err (py_get poi ''name'' (JStr ''N/A'')) (\<lambda>name.
     bind_err (bind_err (py_get poi ''address'' (JObj [])) format_address) (\<lambda>address.
     bind_err (py_get poi ''phone'' (JStr ''N/A'')) (\<lambda>phone.
     bind_err (bind_err (py_get poi ''rating'' (JObj [])) (format_rating lib)) (\<lambda>rating.
     bind_err (py_get poi ''priceRange'' (JStr ''N/A'')) (\<lambda>price.
     bind_err (bind_err (py_get poi ''openingHours'' (JArr [])) (py_join '', ''))
       (\<lambda>hours.
     bind_err (description_of descriptions poi) (\<lambda>description.
       Inr (''Name: '' @ pystr lib name @ newline
            @ ''Address: '' @ address @ newline
            @ ''Phone: '' @ pystr lib phone @ newline
            @ ''Rating: '' @ rating @ newline
            @ ''Price Range: '' @ pystr lib price @ newline
            @ ''Hours: '' @ or_NA hours @ newline
            @ ''Description: '' @ pystr lib description))))))))"

text \<open>The list \<^verbatim>\<open>results\<close> of \<^verbatim>\<open>_format_local_results\<close>, before it is joined.\<close>

definition local_result_blocks :: "pylib \<Rightarrow> json \<Rightarrow> json \<Rightarrow> error + string list" where
  "local_result_blocks lib pois descriptions =
     bind_err (py_get pois ''results'' (JArr [])) (\<lambda>rs.
     bind_err (py_iter rs) (map_err (local_block lib descriptions)))"

text \<open>\<^verbatim>\<open>_format_local_results\<close>.\<close>

definition format_local_results :: "pylib \<Rightarrow> json \<Rightarrow> json \<Rightarrow> error + string" where
  "format_local_results lib pois descriptions =
     bind_err (local_result_blocks lib pois descriptions) (\<lambda>results.
       let s = join (newline @ ''---'' @ newline) results
       in Inr (if s = [] then ''No local results found'' else s))"

text \<open>
  What a tool call returns: a text, or (from the fallback of \<^verbatim>\<open>brave_local_search\<close>,
  which returns what \<^verbatim>\<open>brave_web_search\<close> returned) a coroutine not yet run.
\<close>

datatype 'w tool_result = Text string | Coroutine "('w, string) prog"

text \<open>The text a tool result stands for: a coroutine has to be run for it.\<close>

fun run_result :: "'w tool_result \<Rightarrow> ('w, string) prog" where
  "run_result (Text t) = ret t"
| "run_result (Coroutine c) = c"

text \<open>The first request of \<^verbatim>\<open>brave_local_search\<close> (lines 110 to 121).\<close>

definition location_search_request :: "string \<Rightarrow> request" where
  "location_search_request query =
     \<lparr>url = base_url @ ''/web/search'',
      params = [(''q'', JStr query), (''search_lang'', JStr ''en''),
                (''result_filter'', JStr ''locations''), (''count'', JNum 20)]\<rparr>"

text \<open>The tool \<^verbatim>\<open>brave_local_search\<close>. The argument \<^verbatim>\<open>count\<close> is never read.\<close>

definition brave_local_search ::
  "'w env \<Rightarrow> pylib \<Rightarrow> string \<Rightarrow> int option \<Rightarrow> ('w, 'w tool_result) prog" where
  "brave_local_search env lib query count =
     and_then (rate_limit_check env) (\<lambda>_.
     and_then (client_get env (location_search_request query)) (\<lambda>resp.
     and_then (lift (raise_for_status resp)) (\<lambda>_.
     and_then (lift (json_of resp)) (\<lambda>data.
     and_then (lift (extract_location_ids data)) (\<lambda>location_ids.
       if location_ids = [] then
         and_then (brave_web_search env lib query (Some 20) (Some 0)) (\<lambda>coroutine.
           ret (Coroutine coroutine))
       else
         and_then (local_backfill env query location_ids 0) (\<lambda>location_ids.
         and_then (get_location_details env
            (list_slice_to location_ids (max 10 (int (length location_ids)))))
           (\<lambda>(pois, descriptions).
         and_then (lift (format_local_results lib pois descriptions)) (\<lambda>text.
           ret (Text text)))))))))"

section \<open>Homepage lookup (\<^verbatim>\<open>find_homepages.py\<close>)\<close>

text \<open>The set \<^verbatim>\<open>BLACKLIST\<close>; only membership in it is ever asked.\<close>

definition BLACKLIST :: "string list" where
  "BLACKLIST = [''wikipedia.org'', ''facebook.com'', ''twitter.com'', ''linkedin.com'']"

definition SEARCH_URL :: string where
  "SEARCH_URL = ''https://api.search.brave.com/res/v1/web/search''"

definition WIKIDATA_SEARCH :: string where
  "WIKIDATA_SEARCH = ''https://www.wikidata.org/w/api.php''"

definition WIKIDATA_ENTITY :: string where
  "WIKIDATA_ENTITY = ''https://www.wikidata.org/w/api.php''"

text \<open>\<^verbatim>\<open>urlparse(url).hostname or ""\<close>.\<close>

definition host_or_empty :: "string option \<Rightarrow> string" where
  "host_or_empty h = (case h of None \<Rightarrow> [] | Some x \<Rightarrow> x)"

text \<open>\<^verbatim>\<open>is_official_candidate\<close>.\<close>

definition is_official_candidate :: "pylib \<Rightarrow> json \<Rightarrow> string \<Rightarrow> error + bool" where
  "is_official_candidate lib u company =
     bind_err (urlparse_hostname lib u) (\<lambda>h.
       let host = host_or_empty h in
       if list_ex (\<lambda>domain. str_in domain host) BLACKLIST then Inr False
       else Inr (str_in (lower lib company) (lower lib host)))"

text \<open>
  The first loop of \<^verbatim>\<open>get_brave_homepage\<close> (lines 32 to 35) over the results it
  visits: \<open>Some u\<close> is \<^verbatim>\<open>return url\<close>, \<open>None\<close> the end of the loop.
\<close>

fun first_pass :: "pylib \<Rightarrow> string \<Rightarrow> json list \<Rightarrow> error + json option" where
  "first_pass lib company [] = Inr None"
| "first_pass lib company (r # rs) =
     bind_err (py_get r ''url'' (JStr [])) (\<lambda>u.
     bind_err (is_official_candidate lib u company) (\<lambda>ok.
       if ok then Inr (Some u) else first_pass lib company rs))"

text \<open>
  The second loop (lines 37 to 40): \<^verbatim>\<open>urlparse(url).hostname not in BLACKLIST\<close> asks
  whether the host is an element of the set.
\<close>

fun second_pass :: "pylib \<Rightarrow> json list \<Rightarrow> error + json option" where
  "second_pass lib [] = Inr None"
| "second_pass lib (r # rs) =
     bind_err (py_get r ''url'' (JStr [])) (\<lambda>u.
     bind_err (urlparse_hostname lib u) (\<lambda>h.
       if (case h of None \<Rightarrow> True | Some host \<Rightarrow> host \<notin> set BLACKLIST)
       then Inr (Some u) else second_pass lib rs))"

text \<open>The two loops, one after the other, over the list of results.\<close>

definition scan_results :: "pylib \<Rightarrow> string \<Rightarrow> json \<Rightarrow> error + json option" where
  "scan_results lib company results =
     bind_err (py_iter results) (\<lambda>rs.
     bind_err (first_pass lib company rs) (\<lambda>found.
       case found of
         Some u \<Rightarrow> Inr (Some u)
       | None \<Rightarrow> second_pass lib rs))"

text \<open>The body of the \<^verbatim>\<open>try\<close> of \<^verbatim>\<open>get_brave_homepage\<close>, after the request.\<close>

definition brave_candidate ::
  "pylib \<Rightarrow> string \<Rightarrow> error + response \<Rightarrow> error + json option" where
  "brave_candidate lib company res =
     bind_err res (\<lambda>resp.
     bind_err (raise_for_status resp) (\<lambda>_.
     bind_err (json_of resp) (\<lambda>data.
     bind_err (py_get data ''web'' (JObj [])) (\<lambda>web.
     bind_err (py_get web ''results'' (JArr [])) (scan_results lib company)))))"

text \<open>
  \<^verbatim>\<open>get_brave_homepage\<close>: every exception is caught, and then, as when no loop
  returns, the result is \<^verbatim>\<open>None\<close>.
\<close>

definition homepage_search_request :: "string \<Rightarrow> int \<Rightarrow> request" where
  "homepage_search_request company count =
     \<lparr>url = SEARCH_URL,
      params = [(''q'', JStr ([CHR 0x22] @ company @ [CHR 0x22] @ '' official website'')),
                (''count'', JNum (real_of_int count))]\<rparr>"

definition get_brave_homepage ::
  "pylib \<Rightarrow> 'w env \<Rightarrow> string \<Rightarrow> int \<Rightarrow> 'w \<Rightarrow> json \<times> 'w" where
  "get_brave_homepage lib env company count w =
     (case http_get env (homepage_search_request company count) w of
        (res, w') \<Rightarrow>
          (case brave_candidate lib company res of
             Inr (Some u) \<Rightarrow> (u, w')
           | _ \<Rightarrow> (JNull, w')))"

text \<open>
  The lines of \<^verbatim>\<open>get_wikidata_homepage\<close> from a response on: the search response
  gives the list \<^verbatim>\<open>search\<close>, the claims response the list \<^verbatim>\<open>claims\<close>.
\<close>

definition search_of :: "error + response \<Rightarrow> error + json" where
  "search_of res =
     bind_err res (\<lambda>r.
     bind_err (raise_for_status r) (\<lambda>_.
     bind_err (json_of r) (\<lambda>j. py_get j ''search'' (JArr []))))"

definition claims_of :: "error + response \<Rightarrow> error + json" where
  "claims_of res =
     bind_err res (\<lambda>r2.
     bind_err (raise_for_status r2) (\<lambda>_.
     bind_err (json_of r2) (\<lambda>j.
     bind_err (py_get j ''claims'' (JObj [])) (\<lambda>c. py_get c ''P856'' (JArr [])))))"

text \<open>\<^verbatim>\<open>search[0]["id"]\<close> and \<^verbatim>\<open>claims[0]["mainsnak"]["datavalue"]["value"]\<close>.\<close>

definition first_id :: "json \<Rightarrow> error + json" where
  "first_id search = bind_err (py_index0 search) (\<lambda>first. py_index first ''id'')"

definition first_value :: "json \<Rightarrow> error + json" where
  "first_value claims =
     bind_err (py_index0 claims) (\<lambda>c.
     bind_err (py_index c ''mainsnak'') (\<lambda>m.
     bind_err (py_index m ''datavalue'') (\<lambda>d. py_index d ''value'')))"

definition wikidata_search_request :: "string \<Rightarrow> request" where
  "wikidata_search_request company =
     \<lparr>url = WIKIDATA_SEARCH,
      params = [(''action'', JStr ''wbsearchentities''), (''format'', JStr ''json''),
                (''language'', JStr ''en''), (''search'', JStr company)]\<rparr>"

definition wikidata_claims_request :: "json \<Rightarrow> request" where
  "wikidata_claims_request qid =
     \<lparr>url = WIKIDATA_ENTITY,
      params = [(''action'', JStr ''wbgetclaims''), (''format'', JStr ''json''),
                (''entity'', qid), (''property'', JStr ''P856'')]\<rparr>"

text \<open>\<^verbatim>\<open>get_wikidata_homepage\<close>: \<open>JNull\<close> is \<^verbatim>\<open>None\<close>, returned also on any exception.\<close>

definition get_wikidata_homepage :: "'w env \<Rightarrow> string \<Rightarrow> 'w \<Rightarrow> json \<times> 'w" where
  "get_wikidata_homepage env company w =
     (case http_get env (wikidata_search_request company) w of
        (res, w1) \<Rightarrow>
          (case search_of res of
             Inl e \<Rightarrow> (JNull, w1)
           | Inr search \<Rightarrow>
               if \<not> py_truth search then (JNull, w1)
               else
                 (case first_id search of
                    Inl e \<Rightarrow> (JNull, w1)
                  | Inr qid \<Rightarrow>
                      (case http_get env (wikidata_claims_request qid) w1 of
                         (res2, w2) \<Rightarrow>
                           (case claims_of res2 of
                              Inl e \<Rightarrow> (JNull, w2)
                            | Inr claims \<Rightarrow>
                                if \<not> py_truth claims then (JNull, w2)
                                else
                                  (case first_value claims of
                                     Inl e \<Rightarrow> (JNull, w2)
                                   | Inr v \<Rightarrow> (v, w2)))))))"

text \<open>
  One turn of the loop of the main program (lines 80 to 83): the value stored for
  \<open>name\<close>.
\<close>

definition resolve :: "pylib \<Rightarrow> 'w env \<Rightarrow> string \<Rightarrow> 'w \<Rightarrow> json \<times> 'w" where
  "resolve lib env name w =
     (case get_brave_homepage lib env name 10 w of
        (u, w1) \<Rightarrow>
          if \<not> py_truth u
          then (case get_wikidata_homepage env name w1 of
                  (u2, w2) \<Rightarrow> (py_or u2 (JStr ''Not found''), w2))
          else (py_or u (JStr ''Not found''), w1))"

text \<open>The main program: the dict \<^verbatim>\<open>out\<close>, one entry for each company in turn.\<close>

fun resolve_each :: "pylib \<Rightarrow> 'w env \<Rightarrow> string list \<Rightarrow> 'w \<Rightarrow> (string \<times> json) list \<times> 'w" where
  "resolve_each lib env [] w = ([], w)"
| "resolve_each lib env (name # names) w =
     (case resolve lib env name w of
        (u, w1) \<Rightarrow>
          (case resolve_each lib env names w1 of
             (out, w2) \<Rightarrow> ((name, u) # out, w2)))"

definition main_out :: "pylib \<Rightarrow> 'w env \<Rightarrow> 'w \<Rightarrow> (string \<times> json) list \<times> 'w" where
  "main_out lib env w = resolve_each lib env [''Nestle'', ''Roche'', ''Novartis'', ''UBS''] w"

section \<open>A library and upstreams for the examples\<close>

text \<open>
  The examples below need the library functions at a few arguments. \<open>example_lib\<close>
  agrees with Python there: \<^verbatim>\<open>str()\<close> on a string (other values are not rendered
  by any example), \<^verbatim>\<open>lower()\<close> on ASCII letters, and \<^verbatim>\<open>urlparse(u).hostname\<close> on a
  URL \<^verbatim>\<open>http[s]://host[:port][/path]\<close> without user information (no host when the
  URL does not start that way; a false non-string is parsed as the empty URL, a true
  one has no \<^verbatim>\<open>decode\<close>).
\<close>

definition ascii_lower :: "char \<Rightarrow> char" where
  "ascii_lower c =
     (let n = (of_char c :: nat) in if 65 \<le> n \<and> n \<le> 90 then char_of (n + 32) else c)"

definition host_part :: "string \<Rightarrow> string option" where
  "host_part rest =
     (let h = map ascii_lower (takeWhile (\<lambda>c. c \<notin> set ''/?#:'') rest)
      in if h = [] then None else Some h)"

fun example_hostname :: "json \<Rightarrow> error + string option" where
  "example_hostname (JStr u) =
     Inr (if prefix ''https://'' u then host_part (drop 8 u)
          else if prefix ''http://'' u then host_part (drop 7 u)
          else None)"
| "example_hostname x = (if py_truth x then Inl AttributeError else Inr None)"

fun example_str :: "json \<Rightarrow> string" where
  "example_str (JStr s) = s"
| "example_str x = []"

definition example_lib :: pylib where
  "example_lib =
     \<lparr>pystr = example_str, lower = map ascii_lower, urlparse_hostname = example_hostname\<rparr>"

text \<open>
  An upstream that answers every search request with status 200 and the same page:
  three web results and one location with an identifier (and one without). The world
  is the number of requests served; the clock stands still.
\<close>

definition example_item :: json where
  "example_item =
     JObj [(''title'', JStr ''T''), (''description'', JStr ''D''), (''url'', JStr ''U'')]"

definition example_page :: json where
  "example_page =
     JObj [(''web'', JObj [(''results'', JArr [example_item, example_item, example_item])]),
           (''locations'',
            JObj [(''results'', JArr [JObj [(''id'', JStr ''loc1'')],
                                      JObj [(''title'', JStr ''no id'')]])])]"

definition example_pois :: json where
  "example_pois = JObj [(''results'', JArr [JObj [(''id'', JStr ''loc1''), (''name'', JStr ''Cafe'')]])]"

definition example_descriptions :: json where
  "example_descriptions = JObj [(''descriptions'', JObj [(''other'', JStr ''elsewhere'')])]"

definition ok_response :: "json \<Rightarrow> response" where
  "ok_response j = \<lparr>status_code = 200, body = Some j\<rparr>"

definition example_env :: "nat env" where
  "example_env =
     \<lparr>clock = (\<lambda>w. 0),
      http_get = (\<lambda>req w.
        (Inr (ok_response
               (if url req = base_url @ ''/local/pois'' then example_pois
                else if url req = base_url @ ''/local/descriptions'' then example_descriptions
                else example_page)),
         Suc w))\<rparr>"

text \<open>A server just constructed, at time \<open>0\<close>, before any request.\<close>

definition fresh_server :: "nat server" where
  "fresh_server = \<lparr>rate_limit = default_RateLimit 0, world = 0, trace = []\<rparr>"

text \<open>
  An upstream without locations: every page has three web results and nothing else.
  Two time units pass between one request and the next.
\<close>

definition web_only_page :: json where
  "web_only_page =
     JObj [(''web'', JObj [(''results'', JArr [example_item, example_item, example_item])])]"

definition web_only_env :: "nat env" where
  "web_only_env =
     \<lparr>clock = (\<lambda>w. 2 * real w),
      http_get = (\<lambda>req w. (Inr (ok_response web_only_page), Suc w))\<rparr>"

text \<open>
  The same upstream without locations, answering at once: the clock stands still.
\<close>

definition quick_web_only_env :: "nat env" where
  "quick_web_only_env =
     \<lparr>clock = (\<lambda>w. 0),
      http_get = (\<lambda>req w. (Inr (ok_response web_only_page), Suc w))\<rparr>"

text \<open>
  An upstream whose points-of-interest resource answers with status 500 and an error
  body, while the other resources answer as in \<open>example_env\<close>.
\<close>

definition error_body :: json where
  "error_body = JObj [(''type'', JStr ''ErrorResponse'')]"

definition failing_pois_env :: "nat env" where
  "failing_pois_env =
     \<lparr>clock = (\<lambda>w. 0),
      http_get = (\<lambda>req w.
        (Inr (if url req = base_url @ ''/local/pois''
              then \<lparr>status_code = 500, body = Some error_body\<rparr>
              else if url req = base_url @ ''/local/descriptions''
              then ok_response example_descriptions
              else ok_response example_page),
         Suc w))\<rparr>"

text \<open>A search engine whose only result is a Wikipedia article.\<close>

definition wikipedia_url :: string where
  "wikipedia_url = ''https://en.wikipedia.org/wiki/Acme''"

definition wikipedia_only :: json where
  "wikipedia_only = JArr [JObj [(''url'', JStr wikipedia_url)]]"

definition wikipedia_env :: "nat env" where
  "wikipedia_env =
     \<lparr>clock = (\<lambda>w. 0),
      http_get = (\<lambda>req w.
        (Inr (ok_response (JObj [(''web'', JObj [(''results'', wikipedia_only)])])), Suc w))\<rparr>"

text \<open>
  A search engine without results and a knowledge base that knows the entity
  \<open>Q1\<close>, whose official website is \<^verbatim>\<open>https://acme.org/\<close>.
\<close>

definition kb_search_body :: json where
  "kb_search_body = JObj [(''search'', JArr [JObj [(''id'', JStr ''Q1'')]])]"

definition kb_claims_body :: json where
  "kb_claims_body =
     JObj [(''claims'',
            JObj [(''P856'',
                   JArr [JObj [(''mainsnak'',
                               JObj [(''datavalue'',
                                      JObj [(''value'', JStr ''https://acme.org/'')])])]])])]"

text \<open>
  The knowledge base answers two requests only, the search for the name \<open>Acme\<close> and
  the request for the property \<open>P856\<close> of \<open>Q1\<close>; every other request gets an empty
  object. The world is the list of the requests made so far.
\<close>

definition kb_env :: "request list env" where
  "kb_env =
     \<lparr>clock = (\<lambda>w. 0),
      http_get = (\<lambda>req w.
        (Inr (ok_response
               (if req = \<lparr>url = ''https://www.wikidata.org/w/api.php'',
                           params = [(''action'', JStr ''wbsearchentities''),
                                     (''format'', JStr ''json''), (''language'', JStr ''en''),
                                     (''search'', JStr ''Acme'')]\<rparr>
                then kb_search_body
                else if req = \<lparr>url = ''https://www.wikidata.org/w/api.php'',
                                params = [(''action'', JStr ''wbgetclaims''),
                                          (''format'', JStr ''json''),
                                          (''entity'', JStr ''Q1''),
                                          (''property'', JStr ''P856'')]\<rparr>
                then kb_claims_body
                else JObj [])),
         w @ [req]))\<rparr>"

text \<open>Neither source knows anything.\<close>

definition empty_env :: "nat env" where
  "empty_env =
     \<lparr>clock = (\<lambda>w. 0),
      http_get = (\<lambda>req w. (Inr (ok_response (JObj [])), Suc w))\<rparr>"

section \<open>Observations\<close>

text \<open>The number of calls admitted in a run of calls of \<open>check\<close>.\<close>

fun admitted :: "(error + unit) list \<Rightarrow> nat" where
  "admitted [] = 0"
| "admitted (Inr u # ress) = Suc (admitted ress)"
| "admitted (Inl e # ress) = admitted ress"

text \<open>The requests in a history, and their number.\<close>

fun is_get :: "event \<Rightarrow> bool" where
  "is_get (Get req) = True"
| "is_get (Check res) = False"

definition fetch_count :: "event list \<Rightarrow> nat" where
  "fetch_count tr = length (filter is_get tr)"

fun is_dict :: "json \<Rightarrow> bool" where
  "is_dict (JObj kvs) = True"
| "is_dict x = False"

text \<open>
  What one turn of the loop of \<^verbatim>\<open>_format_web_results\<close> makes of the outcome \<open>res\<close>
  of its request: the list \<open>web_results\<close> extended by the page's results.
\<close>

definition web_fetch_more :: "json \<Rightarrow> error + response \<Rightarrow> error + json" where
  "web_fetch_more web_results res =
     bind_err res (\<lambda>additional_response.
     bind_err (json_of additional_response) (\<lambda>additional_data.
     bind_err (web_results_of additional_data) (py_extend web_results)))"

text \<open>The same for the loop of \<^verbatim>\<open>brave_local_search\<close>: the identifiers of the page.\<close>

definition location_fetch_more :: "error + response \<Rightarrow> error + json list" where
  "location_fetch_more res =
     bind_err res (\<lambda>additional_response.
     bind_err (json_of additional_response) extract_location_ids)"

text \<open>
  An upstream that answers every request with a page of three web results, each a
  dict, under a status that \<^verbatim>\<open>raise_for_status\<close> accepts.
\<close>

definition three_per_page :: "'w env \<Rightarrow> bool" where
  "three_per_page env = (\<forall>req w. \<exists>resp j items w'.
       http_get env req w = (Inr resp, w') \<and> raise_for_status resp = Inr ()
       \<and> json_of resp = Inr j \<and> web_results_of j = Inr (JArr items)
       \<and> length items = 3 \<and> list_all is_dict items)"

section \<open>Properties of the rate limiter\<close>

lemma check_refines_admit:
  "admit now (governor_of lw r) =
     (admission_of (fst (check now r)), governor_of lw (snd (check now r)))"
  by (simp add: admit_def check_def governor_of_def Let_def)

lemma check_only_RateLimitError:
  "fst (check now r) = Inr () \<or> fst (check now r) = Inl RateLimitError"
  by (simp add: check_def Let_def)

lemma check_limits_unchanged:
  "per_second (snd (check now r)) = per_second r \<and>
   per_month (snd (check now r)) = per_month r"
  by (simp add: check_def Let_def)

lemma check_nonneg:
  "0 \<le> requests_second r \<Longrightarrow> 0 \<le> requests_month r \<Longrightarrow>
   0 \<le> requests_second (snd (check now r)) \<and> 0 \<le> requests_month (snd (check now r))"
  by (simp add: check_def Let_def)

lemma check_in_window_ok:
  assumes "now - last_reset r \<le> 1"
    and "requests_second r < per_second r"
    and "requests_month r < per_month r"
  shows "check now r =
           (Inr (), r\<lparr>requests_second := requests_second r + 1,
                      requests_month := requests_month r + 1\<rparr>)"
  using assms by (simp add: check_def Let_def)

lemma check_in_window_full:
  assumes "now - last_reset r \<le> 1"
    and "requests_second r \<ge> per_second r \<or> requests_month r \<ge> per_month r"
  shows "check now r = (Inl RateLimitError, r)"
  using assms by (auto simp add: check_def Let_def)

lemma check_all_in_window:
  assumes "\<forall>t \<in> set ts. t - last_reset r \<le> 1"
    and "requests_second r + int (length ts) \<le> per_second r"
    and "requests_month r + int (length ts) \<le> per_month r"
  shows "check_all ts r =
           (replicate (length ts) (Inr ()),
            r\<lparr>requests_second := requests_second r + int (length ts),
              requests_month := requests_month r + int (length ts)\<rparr>)"
  using assms
proof (induction ts arbitrary: r)
  case Nil
  then show ?case by simp
next
  case (Cons t ts)
  let ?r' = "r\<lparr>requests_second := requests_second r + 1,
               requests_month := requests_month r + 1\<rparr>"
  have step: "check t r = (Inr (), ?r')"
    using Cons.prems by (intro check_in_window_ok) auto
  have "check_all ts ?r' =
          (replicate (length ts) (Inr ()),
           ?r'\<lparr>requests_second := requests_second ?r' + int (length ts),
               requests_month := requests_month ?r' + int (length ts)\<rparr>)"
    using Cons.prems by (intro Cons.IH) auto
  with step show ?case by (simp add: add.assoc add.commute)
qed

lemma check_all_append:
  "check_all (ts @ us) r =
     (case check_all ts r of (ress, r') \<Rightarrow>
        (case check_all us r' of (ress', r'') \<Rightarrow> (ress @ ress', r'')))"
  by (induction ts arbitrary: r) (auto split: prod.splits)

lemma check_month_step:
  "requests_month (snd (check now r)) = requests_month r + int (admitted [fst (check now r)])"
  by (simp add: check_def Let_def)

lemma check_second_step:
  "now - last_reset r \<le> 1 \<Longrightarrow>
   requests_second (snd (check now r)) = requests_second r + int (admitted [fst (check now r)])
   \<and> last_reset (snd (check now r)) = last_reset r"
  by (simp add: check_def Let_def)

lemma check_month_le:
  "requests_month r \<le> per_month r \<Longrightarrow> requests_month (snd (check now r)) \<le> per_month r"
  by (simp add: check_def Let_def)

lemma check_second_le:
  "0 \<le> per_second r \<Longrightarrow> requests_second r \<le> per_second r \<Longrightarrow>
   requests_second (snd (check now r)) \<le> per_second r"
  by (simp add: check_def Let_def)

lemma check_all_Cons:
  "snd (check_all (t # ts) r) = snd (check_all ts (snd (check t r)))"
  "fst (check_all (t # ts) r) = fst (check t r) # fst (check_all ts (snd (check t r)))"
  by (simp_all add: case_prod_beta)

lemma check_all_limits_unchanged:
  "per_second (snd (check_all ts r)) = per_second r \<and>
   per_month (snd (check_all ts r)) = per_month r"
proof (induction ts arbitrary: r)
  case Nil
  then show ?case by simp
next
  case (Cons t ts)
  from Cons [of "snd (check t r)"] check_limits_unchanged [of t r]
  show ?case by (simp add: check_all_Cons del: check_all.simps)
qed

lemma check_all_nonneg:
  "0 \<le> requests_second r \<Longrightarrow> 0 \<le> requests_month r \<Longrightarrow>
   0 \<le> requests_second (snd (check_all ts r)) \<and> 0 \<le> requests_month (snd (check_all ts r))"
proof (induction ts arbitrary: r)
  case Nil
  then show ?case by simp
next
  case (Cons t ts)
  from check_nonneg [OF Cons.prems, of t] Cons.IH [of "snd (check t r)"]
  show ?case by (simp add: check_all_Cons del: check_all.simps)
qed

lemma check_all_month_count:
  "requests_month (snd (check_all ts r))
     = requests_month r + int (admitted (fst (check_all ts r)))"
proof (induction ts arbitrary: r)
  case Nil
  then show ?case by simp
next
  case (Cons t ts)
  from Cons [of "snd (check t r)"] check_month_step [of t r]
  show ?case by (cases "fst (check t r)") (auto simp add: check_all_Cons simp del: check_all.simps)
qed

lemma check_all_month_le:
  "requests_month r \<le> per_month r \<Longrightarrow> requests_month (snd (check_all ts r)) \<le> per_month r"
proof (induction ts arbitrary: r)
  case Nil
  then show ?case by simp
next
  case (Cons t ts)
  from check_month_le [OF Cons.prems, of t] check_limits_unchanged [of t r]
    Cons.IH [of "snd (check t r)"]
  show ?case by (simp add: check_all_Cons del: check_all.simps)
qed

lemma check_all_window_count:
  "\<forall>t \<in> set ts. t - last_reset r \<le> 1 \<Longrightarrow>
   requests_second (snd (check_all ts r))
     = requests_second r + int (admitted (fst (check_all ts r)))"
proof (induction ts arbitrary: r)
  case Nil
  then show ?case by simp
next
  case (Cons t ts)
  from Cons.prems have t: "t - last_reset r \<le> 1" by simp
  from check_second_step [OF t] Cons.prems
  have "\<forall>t' \<in> set ts. t' - last_reset (snd (check t r)) \<le> 1" by simp
  from Cons.IH [OF this] check_second_step [OF t]
  show ?case by (cases "fst (check t r)") (auto simp add: check_all_Cons simp del: check_all.simps)
qed

lemma check_all_second_le:
  "0 \<le> per_second r \<Longrightarrow> requests_second r \<le> per_second r \<Longrightarrow>
   requests_second (snd (check_all ts r)) \<le> per_second r"
proof (induction ts arbitrary: r)
  case Nil
  then show ?case by simp
next
  case (Cons t ts)
  from check_second_le [OF Cons.prems, of t] check_limits_unchanged [of t r] Cons.prems
    Cons.IH [of "snd (check t r)"]
  show ?case by (simp add: check_all_Cons del: check_all.simps)
qed

text \<open>
  The counts in a run of calls made one after the other: from a governor whose counts
  do not exceed their limits, no more calls are admitted than the long window has
  room for, and within one short window no more than the short window has room for.
\<close>

lemma admitted_overall_bound:
  "requests_month r \<le> per_month r \<Longrightarrow>
   int (admitted (fst (check_all ts r))) \<le> per_month r - requests_month r"
  using check_all_month_count [of ts r] check_all_month_le [of r ts] by simp

lemma admitted_window_bound:
  "\<forall>t \<in> set ts. t - last_reset r \<le> 1 \<Longrightarrow> 0 \<le> per_second r \<Longrightarrow>
   requests_second r \<le> per_second r \<Longrightarrow>
   int (admitted (fst (check_all ts r))) \<le> per_second r - requests_second r"
  using check_all_window_count [of ts r] check_all_second_le [of r ts] by simp

lemma zero_limit_never_admits:
  assumes "ps = 0 \<or> pm = 0"
  shows "fst (check now (snd (check_all ts (post_init ps pm t0)))) = Inl RateLimitError"
proof -
  let ?r = "snd (check_all ts (post_init ps pm t0))"
  have "0 \<le> requests_second ?r \<and> 0 \<le> requests_month ?r"
    by (rule check_all_nonneg) (simp_all add: post_init_def)
  moreover have "per_second ?r = ps \<and> per_month ?r = pm"
    using check_all_limits_unchanged [of ts "post_init ps pm t0"] by (simp add: post_init_def)
  ultimately show ?thesis using assms by (auto simp add: check_def Let_def)
qed

text \<open>
  C1. \<open>check\<close> is the specification's reference step function \<open>admit\<close>: the short
  window is reset (count 0, start \<open>now\<close>) when more than one time unit has elapsed,
  the long count is never reset; then the call fails with the rate-limit error and
  changes nothing further when a count has reached its limit, and otherwise adds one
  to both counts. Consequently, from the start of a short window whose long window
  still has room for them, \<open>per_second\<close> calls within the second all succeed and the
  next one fails; and a limit of 0 makes every call fail: in any state with
  non-negative counts, and so in every state that a run of calls reaches from the
  construction of the object.
\<close>

theorem check_is_reference_step:
  "admit now (governor_of lw r) =
     (admission_of (fst (check now r)), governor_of lw (snd (check now r)))
   \<and> (requests_second r = 0
        \<and> requests_month r + per_second r \<le> per_month r
        \<and> length ts = nat (per_second r)
        \<and> (\<forall>t \<in> set (ts @ [t']). t - last_reset r \<le> 1)
      \<longrightarrow> fst (check_all (ts @ [t']) r)
            = replicate (nat (per_second r)) (Inr ()) @ [Inl RateLimitError])
   \<and> ((per_second r = 0 \<or> per_month r = 0)
        \<and> 0 \<le> requests_second r \<and> 0 \<le> requests_month r
      \<longrightarrow> check now r
            = (Inl RateLimitError,
               if now - last_reset r > 1
               then r\<lparr>requests_second := 0, last_reset := now\<rparr> else r))
   \<and> (ps = 0 \<or> pm = 0
      \<longrightarrow> fst (check now (snd (check_all us (post_init ps pm t0)))) = Inl RateLimitError)"
proof (intro conjI impI)
  show "admit now (governor_of lw r) =
     (admission_of (fst (check now r)), governor_of lw (snd (check now r)))"
    by (rule check_refines_admit)
next
  assume a: "requests_second r = 0
        \<and> requests_month r + per_second r \<le> per_month r
        \<and> length ts = nat (per_second r)
        \<and> (\<forall>t \<in> set (ts @ [t']). t - last_reset r \<le> 1)"
  show "fst (check_all (ts @ [t']) r)
            = replicate (nat (per_second r)) (Inr ()) @ [Inl RateLimitError]"
  proof (cases "0 \<le> per_second r")
    case True
    let ?n = "length ts"
    let ?r' = "r\<lparr>requests_second := requests_second r + int ?n,
                 requests_month := requests_month r + int ?n\<rparr>"
    have n: "int ?n = per_second r" using a True by simp
    have run: "check_all ts r = (replicate ?n (Inr ()), ?r')"
      using a n by (intro check_all_in_window) auto
    have last: "check t' ?r' = (Inl RateLimitError, ?r')"
      using a n by (intro check_in_window_full) auto
    show ?thesis using run last a by (simp add: check_all_append)
  next
    case False
    with a have "ts = []" by simp
    moreover have "check t' r = (Inl RateLimitError, r)"
      using a False by (intro check_in_window_full) auto
    ultimately show ?thesis using False by simp
  qed
next
  assume "(per_second r = 0 \<or> per_month r = 0)
        \<and> 0 \<le> requests_second r \<and> 0 \<le> requests_month r"
  then show "check now r
            = (Inl RateLimitError,
               if now - last_reset r > 1
               then r\<lparr>requests_second := 0, last_reset := now\<rparr> else r)"
    by (auto simp add: check_def Let_def)
next
  assume "ps = 0 \<or> pm = 0"
  then show "fst (check now (snd (check_all us (post_init ps pm t0)))) = Inl RateLimitError"
    by (rule zero_limit_never_admits)
qed

theorem check_is_reference_step_witness:
  "fst (check_all ([0.2, 0.5] @ [0.9]) (post_init 2 2000 0))
     = [Inr (), Inr (), Inl RateLimitError]
   \<and> check 5 (post_init 0 2000 0)
     = (Inl RateLimitError, (post_init 0 2000 0)\<lparr>requests_second := 0, last_reset := 5\<rparr>)
   \<and> fst (check 7 (snd (check_all [1, 3] (post_init 1 0 0)))) = Inl RateLimitError"
  using check_is_reference_step
      [where r = "post_init 2 2000 0" and ts = "[0.2, 0.5]" and t' = "0.9"]
    check_is_reference_step [where r = "post_init 0 2000 0" and now = 5]
    check_is_reference_step [where ps = 1 and pm = 0 and us = "[1, 3]" and ?t0.0 = 0 and now = 7]
  by (simp add: post_init_def numeral_2_eq_2)

section \<open>Properties of the backfill loops\<close>

declare web_backfill.simps [simp del] local_backfill.simps [simp del]

lemmas prog_defs = and_then_def lift_def ret_def client_get_def rate_limit_check_def

text \<open>One turn of each loop, with the state written out.\<close>

lemma web_backfill_unfold:
  "web_backfill env data m wr offset s =
    (case py_len wr of
       Inl e \<Rightarrow> (Inl e, s)
     | Inr n \<Rightarrow>
        if n < m \<and> offset < 40 then
          (case py_get data ''query'' (JStr []) of
             Inl e \<Rightarrow> (Inl e, s)
           | Inr q \<Rightarrow>
              (case http_get env (web_page_request q (offset + 20)) (world s) of
                 (res, w') \<Rightarrow>
                   (case web_fetch_more wr res of
                      Inl e \<Rightarrow>
                        (Inl e, s\<lparr>world := w',
                                  trace := trace s @ [Get (web_page_request q (offset + 20))]\<rparr>)
                    | Inr wr' \<Rightarrow>
                        web_backfill env data m wr' (offset + 20)
                          (s\<lparr>world := w',
                             trace := trace s @ [Get (web_page_request q (offset + 20))]\<rparr>))))
        else (Inr wr, s))"
  apply (subst web_backfill.simps)
  apply (auto simp add: prog_defs web_fetch_more_def split: sum.splits prod.splits)
  done

lemma local_backfill_unfold:
  "local_backfill env query ids offset s =
    (if int (length ids) < 10 \<and> offset < 40 then
       (case http_get env (location_page_request query (offset + 20)) (world s) of
          (res, w') \<Rightarrow>
            (case location_fetch_more res of
               Inl e \<Rightarrow>
                 (Inl e, s\<lparr>world := w',
                           trace := trace s @ [Get (location_page_request query (offset + 20))]\<rparr>)
             | Inr extra \<Rightarrow>
                 local_backfill env query (ids @ extra) (offset + 20)
                   (s\<lparr>world := w',
                      trace := trace s @ [Get (location_page_request query (offset + 20))]\<rparr>)))
     else (Inr ids, s))"
  apply (subst local_backfill.simps)
  apply (auto simp add: prog_defs location_fetch_more_def split: sum.splits prod.splits)
  done

lemma web_backfill_trace_40:
  "40 \<le> offset \<Longrightarrow> trace (snd (web_backfill env data m wr offset s)) = trace s"
  by (subst web_backfill_unfold) (auto split: sum.splits)

lemma web_backfill_no_query:
  "py_get data ''query'' (JStr []) = Inl e \<Longrightarrow>
   trace (snd (web_backfill env data m wr offset s)) = trace s"
  by (subst web_backfill_unfold) (auto split: sum.splits)

lemma web_backfill_trace_20:
  "py_get data ''query'' (JStr []) = Inr q \<Longrightarrow>
   trace (snd (web_backfill env data m wr 20 s)) = trace s
     \<or> trace (snd (web_backfill env data m wr 20 s)) = trace s @ [Get (web_page_request q 40)]"
  by (subst (1 2) web_backfill_unfold)
    (auto simp add: web_backfill_trace_40 split: sum.splits prod.splits)

lemma web_backfill_trace_0:
  assumes q: "py_get data ''query'' (JStr []) = Inr q"
  shows "trace (snd (web_backfill env data m wr 0 s)) = trace s
     \<or> trace (snd (web_backfill env data m wr 0 s)) = trace s @ [Get (web_page_request q 20)]
     \<or> trace (snd (web_backfill env data m wr 0 s))
         = trace s @ [Get (web_page_request q 20), Get (web_page_request q 40)]"
proof (cases "py_len wr")
  case (Inl e)
  then show ?thesis by (subst web_backfill_unfold) simp
next
  case (Inr n)
  show ?thesis
  proof (cases "n < m")
    case False
    with Inr show ?thesis by (subst web_backfill_unfold) simp
  next
    case True
    obtain res w' where g: "http_get env (web_page_request q 20) (world s) = (res, w')"
      by (cases "http_get env (web_page_request q 20) (world s)")
    let ?s1 = "s\<lparr>world := w', trace := trace s @ [Get (web_page_request q 20)]\<rparr>"
    show ?thesis
    proof (cases "web_fetch_more wr res")
      case (Inl e)
      with Inr True q g have "web_backfill env data m wr 0 s = (Inl e, ?s1)"
        by (subst web_backfill_unfold) simp
      then show ?thesis by simp
    next
      case r: (Inr wr')
      with Inr True q g
      have "web_backfill env data m wr 0 s = web_backfill env data m wr' 20 ?s1"
        by (subst web_backfill_unfold) simp
      with web_backfill_trace_20 [OF q, of env m wr' ?s1] show ?thesis by auto
    qed
  qed
qed

lemma web_backfill_at_most_two:
  "\<exists>q k. k \<le> 2 \<and> trace (snd (web_backfill env data m wr 0 s))
      = trace s @ take k [Get (web_page_request q 20), Get (web_page_request q 40)]"
proof (cases "py_get data ''query'' (JStr [])")
  case (Inl e)
  then have "trace (snd (web_backfill env data m wr 0 s))
      = trace s @ take 0 [Get (web_page_request JNull 20), Get (web_page_request JNull 40)]"
    by (simp add: web_backfill_no_query)
  then show ?thesis by blast
next
  case (Inr q)
  from web_backfill_trace_0 [OF Inr, of env m wr s] show ?thesis
    apply (elim disjE)
      apply (rule exI [of _ q], rule exI [of _ 0], simp)
     apply (rule exI [of _ q], rule exI [of _ 1], simp)
    apply (rule exI [of _ q], rule exI [of _ 2], simp)
    done
qed

lemma local_backfill_trace_40:
  "40 \<le> offset \<Longrightarrow> trace (snd (local_backfill env query ids offset s)) = trace s"
  by (subst local_backfill_unfold) (auto split: sum.splits)

lemma local_backfill_trace_20:
  "trace (snd (local_backfill env query ids 20 s)) = trace s
     \<or> trace (snd (local_backfill env query ids 20 s))
         = trace s @ [Get (location_page_request query 40)]"
  by (subst (1 2) local_backfill_unfold)
    (auto simp add: local_backfill_trace_40 split: sum.splits prod.splits)

lemma local_backfill_trace_0:
  "trace (snd (local_backfill env query ids 0 s)) = trace s
     \<or> trace (snd (local_backfill env query ids 0 s))
         = trace s @ [Get (location_page_request query 20)]
     \<or> trace (snd (local_backfill env query ids 0 s))
         = trace s @ [Get (location_page_request query 20), Get (location_page_request query 40)]"
proof (cases "int (length ids) < 10")
  case False
  then show ?thesis by (subst local_backfill_unfold) simp
next
  case True
  obtain res w' where g: "http_get env (location_page_request query 20) (world s) = (res, w')"
    by (cases "http_get env (location_page_request query 20) (world s)")
  let ?s1 = "s\<lparr>world := w', trace := trace s @ [Get (location_page_request query 20)]\<rparr>"
  show ?thesis
  proof (cases "location_fetch_more res")
    case (Inl e)
    with True g have "local_backfill env query ids 0 s = (Inl e, ?s1)"
      by (subst local_backfill_unfold) simp
    then show ?thesis by simp
  next
    case (Inr extra)
    with True g
    have "local_backfill env query ids 0 s = local_backfill env query (ids @ extra) 20 ?s1"
      by (subst local_backfill_unfold) simp
    with local_backfill_trace_20 [of env query "ids @ extra" ?s1] show ?thesis by auto
  qed
qed

lemma local_backfill_at_most_two:
  "\<exists>k. k \<le> 2 \<and> trace (snd (local_backfill env query ids 0 s))
      = trace s @ take k [Get (location_page_request query 20),
                          Get (location_page_request query 40)]"
  using local_backfill_trace_0 [of env query ids s]
  apply (elim disjE)
    apply (rule exI [of _ 0], simp)
   apply (rule exI [of _ 1], simp)
  apply (rule exI [of _ 2], simp)
  done

text \<open>
  C3. The claim asks for a call of \<open>check\<close> before every request of a page. The code
  calls it once, before the first request of a tool call; the requests of the two
  loops follow without one. With the upstream of the examples (three web results and
  one location on every page) the history of a web search, with its coroutine run,
  and of a local search is:
\<close>

theorem backfill_requests_without_check:
  "trace (snd (web_search_awaited example_env example_lib ''q'' (Some 20) (Some 0) fresh_server))
     = [Check (Inr ()),
        Get (web_search_request ''q'' 0),
        Get (web_page_request (JStr []) 20),
        Get (web_page_request (JStr []) 40)]
   \<and> trace (snd (brave_local_search example_env example_lib ''q'' (Some 20) fresh_server))
     = [Check (Inr ()),
        Get (location_search_request ''q''),
        Get (location_page_request ''q'' 20),
        Get (location_page_request ''q'' 40),
        Get (pois_request [JStr ''loc1'', JStr ''loc1'', JStr ''loc1'']),
        Get (descriptions_request [JStr ''loc1'', JStr ''loc1'', JStr ''loc1''])]"
  by code_simp



section \<open>Properties of the web search\<close>

lemma web_results_of_query:
  "web_results_of j = Inr x \<Longrightarrow> \<exists>q. py_get j ''query'' d = Inr q"
  by (cases j) (simp_all add: web_results_of_def)

lemma web_blocks_of_dicts:
  "list_all is_dict xs \<Longrightarrow> \<exists>bs. map_err (web_block lib) xs = Inr bs \<and> length bs = length xs"
proof (induction xs)
  case Nil
  then show ?case by simp
next
  case (Cons x xs)
  then obtain bs where bs: "map_err (web_block lib) xs = Inr bs" "length bs = length xs"
    by auto
  from Cons.prems obtain kvs where "x = JObj kvs" by (cases x) simp_all
  then obtain b where "web_block lib x = Inr b" by (simp add: web_block_def)
  with bs show ?case by simp
qed

lemma web_backfill_stop:
  "m \<le> int (length xs) \<or> 40 \<le> off \<Longrightarrow>
   web_backfill env data m (JArr xs) off s = (Inr (JArr xs), s)"
  by (subst web_backfill_unfold) auto

lemma web_backfill_step:
  assumes H: "three_per_page env"
    and q: "py_get data ''query'' (JStr []) = Inr q"
    and lt: "int (length xs) < m" "off < 40"
  shows "\<exists>items w'. length items = 3 \<and> list_all is_dict items \<and>
     web_backfill env data m (JArr xs) off s =
     web_backfill env data m (JArr (xs @ items)) (off + 20)
       (s\<lparr>world := w', trace := trace s @ [Get (web_page_request q (off + 20))]\<rparr>)"
proof -
  from H obtain resp j items w' where g:
    "http_get env (web_page_request q (off + 20)) (world s) = (Inr resp, w')"
    "json_of resp = Inr j" "web_results_of j = Inr (JArr items)"
    "length items = 3" "list_all is_dict items"
    unfolding three_per_page_def by blast
  then have "web_fetch_more (JArr xs) (Inr resp) = Inr (JArr (xs @ items))"
    by (simp add: web_fetch_more_def list_extend_def)
  with g q lt have "web_backfill env data m (JArr xs) off s =
     web_backfill env data m (JArr (xs @ items)) (off + 20)
       (s\<lparr>world := w', trace := trace s @ [Get (web_page_request q (off + 20))]\<rparr>)"
    by (subst web_backfill_unfold) simp
  with g show ?thesis by blast
qed

lemma list_slice_to_all: "list_slice_to xs (max m (int (length xs))) = xs"
  by (simp add: list_slice_to_def)

lemma three_per_page_blocks:
  assumes H: "three_per_page env"
    and d: "web_results_of data = Inr (JArr items0)" "length items0 = 3" "list_all is_dict items0"
  shows "\<exists>blocks s'. web_result_blocks env lib data 10 s = (Inr blocks, s') \<and> length blocks = 9
           \<and> fetch_count (trace s') = fetch_count (trace s) + 2"
proof -
  from d(1) obtain q where q: "py_get data ''query'' (JStr []) = Inr q"
    using web_results_of_query by blast
  from web_backfill_step [OF H q, of items0 10 0 s] d obtain items1 w1 where
    s1: "length items1 = 3" "list_all is_dict items1"
      "web_backfill env data 10 (JArr items0) 0 s =
       web_backfill env data 10 (JArr (items0 @ items1)) 20
         (s\<lparr>world := w1, trace := trace s @ [Get (web_page_request q 20)]\<rparr>)"
    by auto
  let ?s1 = "s\<lparr>world := w1, trace := trace s @ [Get (web_page_request q 20)]\<rparr>"
  from web_backfill_step [OF H q, of "items0 @ items1" 10 20 ?s1] d s1 obtain items2 w2 where
    s2: "length items2 = 3" "list_all is_dict items2"
      "web_backfill env data 10 (JArr (items0 @ items1)) 20 ?s1 =
       web_backfill env data 10 (JArr ((items0 @ items1) @ items2)) 40
         (?s1\<lparr>world := w2, trace := trace ?s1 @ [Get (web_page_request q 40)]\<rparr>)"
    by auto
  let ?s2 = "?s1\<lparr>world := w2, trace := trace ?s1 @ [Get (web_page_request q 40)]\<rparr>"
  let ?all = "(items0 @ items1) @ items2"
  have loop: "web_backfill env data 10 (JArr items0) 0 s = (Inr (JArr ?all), ?s2)"
    using s1(3) s2(3) by (simp add: web_backfill_stop)
  have "list_all is_dict ?all" using d s1 s2 by simp
  then obtain bs where bs: "map_err (web_block lib) ?all = Inr bs" "length bs = length ?all"
    using web_blocks_of_dicts by blast
  have "web_result_blocks env lib data 10 s = (Inr bs, ?s2)"
    using d loop bs s1 s2 by (simp add: web_result_blocks_def and_then_def lift_def list_slice_to_def)
  moreover have "length bs = 9" using bs d s1 s2 by simp
  moreover have "fetch_count (trace ?s2) = fetch_count (trace s) + 2"
    by (simp add: fetch_count_def)
  ultimately show ?thesis by blast
qed

lemma three_per_page_search:
  assumes H: "three_per_page env"
    and A: "fst (check (clock env (world s)) (rate_limit s)) = Inr ()"
  shows "\<exists>blocks s'. web_search_awaited env lib query count (Some offset) s
            = (Inr (join (newline @ newline) blocks), s')
          \<and> length blocks = 9 \<and> fetch_count (trace s') = fetch_count (trace s) + 3"
proof -
  obtain r' where c: "check (clock env (world s)) (rate_limit s) = (Inr (), r')"
    using A by (cases "check (clock env (world s)) (rate_limit s)") simp
  let ?s0 = "s\<lparr>rate_limit := r', trace := trace s @ [Check (Inr ())]\<rparr>"
  let ?req = "web_search_request query (min offset 9)"
  from H obtain resp j items w' where g:
    "http_get env ?req (world s) = (Inr resp, w')" "raise_for_status resp = Inr ()"
    "json_of resp = Inr j" "web_results_of j = Inr (JArr items)"
    "length items = 3" "list_all is_dict items"
    unfolding three_per_page_def by blast
  let ?s1 = "?s0\<lparr>world := w', trace := trace ?s0 @ [Get ?req]\<rparr>"
  from three_per_page_blocks [OF H g(4) g(5) g(6), of lib ?s1] obtain blocks s' where
    b: "web_result_blocks env lib j 10 ?s1 = (Inr blocks, s')" "length blocks = 9"
       "fetch_count (trace s') = fetch_count (trace ?s1) + 2"
    by blast
  have "web_search_awaited env lib query count (Some offset) s
            = (Inr (join (newline @ newline) blocks), s')"
    using c g b(1)
    by (simp add: web_search_awaited_def brave_web_search_def prog_defs format_web_results_def)
  moreover have "fetch_count (trace s') = fetch_count (trace s) + 3"
    using b(3) by (simp add: fetch_count_def)
  ultimately show ?thesis using b(2) by blast
qed


lemma web_backfill_trace_grows:
  "\<exists>evs. trace (snd (web_backfill env data m wr off s)) = trace s @ evs"
proof (induction env data m wr off arbitrary: s rule: web_backfill.induct)
  case (1 env data min_results web_results offset)
  show ?case
  proof (cases "py_len web_results")
    case (Inl e)
    then show ?thesis by (subst web_backfill_unfold) simp
  next
    case n: (Inr n)
    show ?thesis
    proof (cases "n < min_results \<and> offset < 40")
      case False
      with n show ?thesis by (subst web_backfill_unfold) auto
    next
      case True
      show ?thesis
      proof (cases "py_get data ''query'' (JStr [])")
        case (Inl e)
        with n True show ?thesis by (subst web_backfill_unfold) simp
      next
        case q: (Inr q)
        obtain res w' where g:
          "http_get env (web_page_request q (offset + 20)) (world s) = (res, w')"
          by (cases "http_get env (web_page_request q (offset + 20)) (world s)")
        let ?s1 = "s\<lparr>world := w', trace := trace s @ [Get (web_page_request q (offset + 20))]\<rparr>"
        show ?thesis
        proof (cases "web_fetch_more web_results res")
          case (Inl e)
          with n True q g show ?thesis by (subst web_backfill_unfold) simp
        next
          case (Inr wr')
          have "\<exists>evs. trace (snd (web_backfill env data min_results wr' (offset + 20) ?s1))
                  = trace ?s1 @ evs"
            using True by (intro "1.IH") auto
          then obtain evs where
            "trace (snd (web_backfill env data min_results wr' (offset + 20) ?s1)) = trace ?s1 @ evs"
            by blast
          with n True q g Inr show ?thesis by (subst web_backfill_unfold) simp
        qed
      qed
    qed
  qed
qed

lemma web_backfill_continues:
  assumes "int (length xs) < m" and "off < 40" and "py_get data ''query'' (JStr []) = Inr q"
  shows "\<exists>evs. trace (snd (web_backfill env data m (JArr xs) off s))
           = trace s @ Get (web_page_request q (off + 20)) # evs"
proof -
  obtain res w' where g:
    "http_get env (web_page_request q (off + 20)) (world s) = (res, w')"
    by (cases "http_get env (web_page_request q (off + 20)) (world s)")
  let ?s1 = "s\<lparr>world := w', trace := trace s @ [Get (web_page_request q (off + 20))]\<rparr>"
  show ?thesis
  proof (cases "web_fetch_more (JArr xs) res")
    case (Inl e)
    with assms g show ?thesis by (subst web_backfill_unfold) simp
  next
    case (Inr wr')
    obtain evs where
      "trace (snd (web_backfill env data m wr' (off + 20) ?s1)) = trace ?s1 @ evs"
      using web_backfill_trace_grows by blast
    with assms g Inr show ?thesis by (subst web_backfill_unfold) simp
  qed
qed

text \<open>
  C4, as the code has it. With an upstream that returns three items on every page, a
  web search (its coroutine run) issues exactly three requests, for the offsets of
  the first page, 20 and 40, and returns nine items: the loop ends at the offset
  ceiling of 40 before the floor of 10 is reached. In general the loop ends, with
  no further request, as soon as the accumulated list has reached the floor or the
  offset has reached 40, and not before: below both it requests the next page. Fewer
  items than the floor are no error, and the slice that is formatted is the whole
  accumulated list.
\<close>

theorem web_search_floor_is_best_effort:
  "(three_per_page env \<and> fst (check (clock env (world s)) (rate_limit s)) = Inr ()
      \<longrightarrow> (\<exists>blocks s'. web_search_awaited env lib query count (Some offset) s
                 = (Inr (join (newline @ newline) blocks), s')
               \<and> length blocks = 9
               \<and> fetch_count (trace s') = fetch_count (trace s) + 3))
   \<and> (min_results \<le> int (length xs) \<or> 40 \<le> off
      \<longrightarrow> web_backfill env data min_results (JArr xs) off s = (Inr (JArr xs), s))
   \<and> (int (length xs) < min_results \<and> off < 40
        \<and> py_get data ''query'' (JStr []) = Inr q
      \<longrightarrow> (\<exists>evs. trace (snd (web_backfill env data min_results (JArr xs) off s))
                  = trace s @ Get (web_page_request q (off + 20)) # evs))
   \<and> list_slice_to xs (max min_results (int (length xs))) = xs"
  using three_per_page_search [of env s lib query count offset]
    web_backfill_stop [of min_results xs off env data s]
    web_backfill_continues [of xs min_results off data q env s]
    list_slice_to_all [of xs min_results]
  by blast

theorem web_search_floor_is_best_effort_witness:
  "three_per_page web_only_env
   \<and> fetch_count
       (trace (snd (web_search_awaited web_only_env example_lib ''q'' (Some 20) (Some 0)
                      fresh_server))) = 3
   \<and> web_backfill web_only_env web_only_page 10 (JArr (replicate 9 example_item)) 40
        fresh_server = (Inr (JArr (replicate 9 example_item)), fresh_server)
   \<and> (\<exists>evs. trace (snd (web_backfill web_only_env web_only_page 10 (JArr []) 0 fresh_server))
              = trace fresh_server @ Get (web_page_request (JStr []) 20) # evs)"
proof -
  have tp: "three_per_page web_only_env"
    unfolding three_per_page_def
    by (simp add: web_only_env_def ok_response_def raise_for_status_def json_of_def
        web_only_page_def web_results_of_def example_item_def)
  have ck: "fst (check (clock web_only_env (world fresh_server)) (rate_limit fresh_server))
              = Inr ()"
    by (simp add: check_def web_only_env_def fresh_server_def default_RateLimit_def
        post_init_def)
  have tr: "fetch_count (trace fresh_server) = 0"
    by (simp add: fetch_count_def fresh_server_def)
  have q: "py_get web_only_page ''query'' (JStr []) = Inr (JStr [])"
    by (simp add: web_only_page_def)
  from web_search_floor_is_best_effort
    [where env = web_only_env and s = fresh_server and lib = example_lib and query = "''q''"
       and count = "Some 20" and offset = 0 and min_results = 10
       and xs = "replicate 9 example_item" and off = 40 and data = web_only_page]
    tp ck tr
  have a: "fetch_count
       (trace (snd (web_search_awaited web_only_env example_lib ''q'' (Some 20) (Some 0)
                      fresh_server))) = 3
     \<and> web_backfill web_only_env web_only_page 10 (JArr (replicate 9 example_item)) 40
        fresh_server = (Inr (JArr (replicate 9 example_item)), fresh_server)"
    by auto
  from web_search_floor_is_best_effort
    [where env = web_only_env and s = fresh_server and min_results = 10
       and xs = "[]" and off = 0 and data = web_only_page and q = "JStr []"] q
  have b: "\<exists>evs. trace (snd (web_backfill web_only_env web_only_page 10 (JArr []) 0 fresh_server))
              = trace fresh_server @ Get (web_page_request (JStr []) 20) # evs"
    by simp
  from tp a b show ?thesis by blast
qed

theorem three_per_page_gives_nine_counterexample:
  "fetch_count
     (trace (snd (web_search_awaited example_env example_lib ''q'' (Some 20) (Some 0)
                    fresh_server))) = 3
   \<and> fst (web_search_awaited example_env example_lib ''q'' (Some 20) (Some 0) fresh_server)
     = Inr (join (newline @ newline)
              (replicate 9 (''Title: T'' @ newline @ ''Description: D'' @ newline @ ''URL: U'')))
   \<and> world (snd (web_search_awaited example_env example_lib ''q'' (Some 20) (Some 0)
                   fresh_server)) = 3"
  by code_simp



lemma fetch_count_append: "fetch_count (xs @ ys) = fetch_count xs + fetch_count ys"
  by (simp add: fetch_count_def)

lemma fetch_count_le_length: "fetch_count xs \<le> length xs"
  by (simp add: fetch_count_def)

lemma snd_lift: "snd (lift x s) = s"
  by (simp add: lift_def)

lemma snd_ret: "snd (ret a s) = s"
  by (simp add: ret_def)

lemma snd_and_then_lift:
  "snd (and_then (lift x) f s) = (case x of Inl e \<Rightarrow> s | Inr a \<Rightarrow> snd (f a s))"
  by (simp add: and_then_def lift_def split: sum.splits)

lemma snd_and_then_pure:
  "(\<And>a s'. snd (f a s') = s') \<Longrightarrow> snd (and_then m f s) = snd (m s)"
  by (simp add: and_then_def split: sum.splits prod.splits)

lemma web_backfill_fetch_count:
  "fetch_count (trace (snd (web_backfill env data m wr 0 s))) \<le> fetch_count (trace s) + 2"
proof -
  obtain q k where k: "k \<le> 2"
    "trace (snd (web_backfill env data m wr 0 s))
       = trace s @ take k [Get (web_page_request q 20), Get (web_page_request q 40)]"
    using web_backfill_at_most_two [of env data m wr s] by blast
  have "fetch_count (take k [Get (web_page_request q 20), Get (web_page_request q 40)]) \<le> 2"
    using fetch_count_le_length [of "take k [Get (web_page_request q 20), Get (web_page_request q 40)]"]
    by simp
  with k show ?thesis by (simp add: fetch_count_append)
qed

lemma web_result_blocks_state:
  "snd (web_result_blocks env lib data m s) = s
   \<or> (\<exists>wr. snd (web_result_blocks env lib data m s) = snd (web_backfill env data m wr 0 s))"
proof (cases "web_results_of data")
  case (Inl e)
  then show ?thesis by (simp add: web_result_blocks_def snd_and_then_lift)
next
  case wr: (Inr wr)
  show ?thesis
  proof (cases "py_len wr")
    case (Inl e)
    with wr show ?thesis by (simp add: web_result_blocks_def snd_and_then_lift)
  next
    case (Inr n)
    have tail: "snd (and_then M (\<lambda>web_results.
              and_then (lift (py_len web_results)) (\<lambda>n'.
              and_then (lift (py_slice_to web_results (max m n'))) (\<lambda>sl.
              and_then (lift (py_iter sl)) (\<lambda>items.
                lift (map_err (web_block lib) items))))) s) = snd (M s)" for M
      by (rule snd_and_then_pure) (simp add: snd_and_then_lift snd_lift split: sum.splits)
    have "snd (web_result_blocks env lib data m s)
           = snd ((if n < m then web_backfill env data m wr 0 else ret wr) s)"
      using wr Inr by (simp only: web_result_blocks_def snd_and_then_lift sum.case tail)
    then show ?thesis by (auto simp add: snd_ret)
  qed
qed

lemma web_result_blocks_fetch_count:
  "fetch_count (trace (snd (web_result_blocks env lib data m s))) \<le> fetch_count (trace s) + 2"
  using web_result_blocks_state [of env lib data m s] web_backfill_fetch_count [of env data m _ s]
  by auto

lemma brave_web_search_state:
  "brave_web_search env lib query count offset s = (Inr c, s1) \<Longrightarrow>
   (\<exists>data. c = format_web_results env lib data 10)
   \<and> fetch_count (trace s1) = fetch_count (trace s) + 1"
  by (auto simp add: brave_web_search_def prog_defs fetch_count_def
      split: sum.splits prod.splits)

lemma brave_web_search_error_state:
  "brave_web_search env lib query count offset s = (Inl e, s1) \<Longrightarrow>
   fetch_count (trace s1) \<le> fetch_count (trace s) + 1"
  by (auto simp add: brave_web_search_def prog_defs fetch_count_def
      split: sum.splits prod.splits)

lemma web_search_awaited_fetch_count:
  "fetch_count (trace (snd (web_search_awaited env lib query count offset s)))
     \<le> fetch_count (trace s) + 3"
proof (cases "brave_web_search env lib query count offset s")
  case (Pair res s1)
  show ?thesis
  proof (cases res)
    case (Inl e)
    with Pair brave_web_search_error_state [of env lib query count offset s e s1]
    show ?thesis by (simp add: web_search_awaited_def and_then_def)
  next
    case (Inr c)
    with Pair brave_web_search_state [of env lib query count offset s c s1]
    obtain data where d: "c = format_web_results env lib data 10"
      "fetch_count (trace s1) = fetch_count (trace s) + 1" by blast
    have "snd (format_web_results env lib data 10 s1) = snd (web_result_blocks env lib data 10 s1)"
      unfolding format_web_results_def by (rule snd_and_then_pure) (simp add: snd_ret)
    with Pair Inr d web_result_blocks_fetch_count [of env lib data 10 s1]
    show ?thesis by (simp add: web_search_awaited_def and_then_def)
  qed
qed

text \<open>
  C10. Both backfill loops are total functions: the offset grows by 20 in every turn
  and a turn needs an offset below 40, which is the measure of their termination
  proofs. Started at offset 0, as the code starts them, each loop issues at most two
  requests, whatever the data, the floor, the state and the upstream are: what it adds
  to the history is a prefix of the two requests for the offsets 20 and 40, and
  nothing else. A web search, with its coroutine run, so issues at most three
  requests: the first one and at most two more.
\<close>

theorem backfill_loops_fetch_bound:
  "(\<exists>q k. k \<le> 2 \<and> trace (snd (web_backfill env data min_results web_results 0 s))
       = trace s @ take k [Get (web_page_request q 20), Get (web_page_request q 40)])
   \<and> (\<exists>k. k \<le> 2 \<and> trace (snd (local_backfill env query location_ids 0 s))
       = trace s @ take k [Get (location_page_request query 20),
                           Get (location_page_request query 40)])
   \<and> fetch_count (trace (snd (web_search_awaited env lib query count offset s)))
       \<le> fetch_count (trace s) + 3"
  using web_backfill_at_most_two [of env data min_results web_results s]
    local_backfill_at_most_two [of env query location_ids s]
    web_search_awaited_fetch_count [of env lib query count offset s]
  by (intro conjI)

section \<open>Properties of the local search\<close>

text \<open>
  When the first page of a local search yields no location identifier (the call was
  admitted, the request succeeded with a good status and a body that decodes, and
  the extraction returned the empty list), the tool calls \<open>brave_web_search\<close> for
  the same query, with count 20 and offset 0, in the state the location request left,
  and returns what that call returns: its coroutine, or its exception.
\<close>

lemma local_search_fallback_delegates:
  assumes "rate_limit_check env s = (Inr (), s1)"
    and "client_get env (location_search_request query) s1 = (Inr resp, s2)"
    and "raise_for_status resp = Inr ()"
    and "json_of resp = Inr data"
    and "extract_location_ids data = Inr []"
  shows "brave_local_search env lib query count s
           = and_then (brave_web_search env lib query (Some 20) (Some 0))
               (\<lambda>coroutine. ret (Coroutine coroutine)) s2
         \<and> and_then (brave_local_search env lib query count) run_result s
           = web_search_awaited env lib query (Some 20) (Some 0) s2"
proof -
  have a: "brave_local_search env lib query count s
           = and_then (brave_web_search env lib query (Some 20) (Some 0))
               (\<lambda>coroutine. ret (Coroutine coroutine)) s2"
    using assms by (simp add: brave_local_search_def and_then_def lift_def)
  have "and_then (brave_local_search env lib query count) run_result s
           = web_search_awaited env lib query (Some 20) (Some 0) s2"
    unfolding web_search_awaited_def
    by (subst and_then_def, subst a)
      (auto simp add: and_then_def ret_def split: sum.splits prod.splits)
  with a show ?thesis by simp
qed


text \<open>
  C5. The claim has the local search return the results of a web search when its
  first page holds no location identifier, and the comment in the code says so too.
  The call of \<open>brave_web_search\<close> that the code makes for it starts with a rate-limit
  check of its own, and the check of the local search has already taken the one slot
  of the second: on a server just built, with an upstream that answers at once, the
  second check raises and no web request is made. Where more than a second has passed
  the web request is made, and the tool returns the coroutine of
  \<^verbatim>\<open>_format_web_results\<close>, not yet run, instead of results.
\<close>

theorem fallback_is_rate_limited:
  "fst (and_then (brave_local_search quick_web_only_env example_lib ''q'' (Some 20)) run_result
          fresh_server)
     = Inl RateLimitError
   \<and> trace (snd (brave_local_search quick_web_only_env example_lib ''q'' (Some 20)
                     fresh_server))
     = [Check (Inr ()),
        Get \<lparr>url = ''https://api.search.brave.com/res/v1/web/search'',
               params = [(''q'', JStr ''q''), (''search_lang'', JStr ''en''),
                         (''result_filter'', JStr ''locations''), (''count'', JNum 20)]\<rparr>,
        Check (Inl RateLimitError)]
   \<and> (case fst (brave_local_search web_only_env example_lib ''q'' (Some 20) fresh_server) of
         Inr (Coroutine c) \<Rightarrow> True
       | Inr (Text t) \<Rightarrow> False
       | Inl e \<Rightarrow> False)
   \<and> trace (snd (brave_local_search web_only_env example_lib ''q'' (Some 20) fresh_server))
     = [Check (Inr ()),
        Get \<lparr>url = ''https://api.search.brave.com/res/v1/web/search'',
               params = [(''q'', JStr ''q''), (''search_lang'', JStr ''en''),
                         (''result_filter'', JStr ''locations''), (''count'', JNum 20)]\<rparr>,
        Check (Inr ()),
        Get \<lparr>url = ''https://api.search.brave.com/res/v1/web/search'',
               params = [(''q'', JStr ''q''), (''count'', JNum 20), (''offset'', JNum 0)]\<rparr>]"
  by code_simp

text \<open>
  What fails \<^verbatim>\<open>_get_location_details\<close> as a whole: an exception of either request,
  and a body of either response that does not decode. The status codes play no part.
  In the join, a point of interest whose identifier has no description gets the
  default text.
\<close>

lemma details_fail_on_request_error:
  assumes "http_get env (pois_request ids) (world s) = (res1, w1)"
    and "http_get env (descriptions_request ids) w1 = (res2, w2)"
    and "res1 = Inl e \<or> (\<exists>r. res1 = Inr r) \<and> res2 = Inl e"
  shows "fst (get_location_details env ids s) = Inl e"
  using assms by (auto simp add: get_location_details_def gather_get_def and_then_def)

lemma details_fail_on_bad_body:
  assumes "http_get env (pois_request ids) (world s) = (Inr r1, w1)"
    and "http_get env (descriptions_request ids) w1 = (Inr r2, w2)"
    and "body r1 = None \<or> body r2 = None"
  shows "fst (get_location_details env ids s) = Inl JSONDecodeError"
  using assms
  by (auto simp add: get_location_details_def gather_get_def and_then_def lift_def json_of_def
      split: option.splits)

lemma details_ignore_status:
  assumes "http_get env (pois_request ids) (world s) = (Inr r1, w1)"
    and "http_get env (descriptions_request ids) w1 = (Inr r2, w2)"
    and "body r1 = Some pois" and "body r2 = Some descriptions"
  shows "fst (get_location_details env ids s) = Inr (pois, descriptions)"
  using assms
  by (auto simp add: get_location_details_def gather_get_def and_then_def lift_def ret_def
      json_of_def)

lemma missing_description_default:
  assumes "map_of poi ''id'' = Some (JStr i)" and "map_of ds i = None"
  shows "description_of (JObj [(''descriptions'', JObj ds)]) (JObj poi)
           = Inr (JStr ''No description available'')"
  using assms by (simp add: description_of_def)

text \<open>
  C6. The claim counts a status outside 2xx as a failure of the fetch. The status of
  the two detail responses is never looked at: \<^verbatim>\<open>_get_location_details\<close> does not
  call \<^verbatim>\<open>raise_for_status()\<close>, which the first request of each tool does. With a
  points-of-interest resource that answers 500 with an error body, the call returns
  the error body as the points of interest, and the local search ends with the text
  for no results instead of an exception.
\<close>

theorem non_2xx_details_do_not_fail:
  "get_location_details failing_pois_env [JStr ''loc1''] fresh_server
     = (Inr (error_body, example_descriptions),
        fresh_server\<lparr>world := 2,
          trace := [Get (pois_request [JStr ''loc1'']),
                    Get (descriptions_request [JStr ''loc1''])]\<rparr>)
   \<and> raise_for_status \<lparr>status_code = 500, body = Some error_body\<rparr> = Inl HTTPStatusError
   \<and> fst (and_then (brave_local_search failing_pois_env example_lib ''q'' (Some 20)) run_result
            fresh_server)
     = Inr ''No local results found''"
  by code_simp

text \<open>
  Over entries that are dicts, the extraction keeps the identifiers of those that
  have one, skips the others and never raises.
\<close>

lemma ids_of_results_dicts:
  "ids_of_results (map JObj ds) = Inr (List.map_filter (\<lambda>kvs. map_of kvs ''id'') ds)"
  by (induction ds) (auto simp add: List.map_filter_def)

text \<open>
  C9. A location entry without \<^verbatim>\<open>id\<close> is skipped by \<^verbatim>\<open>_extract_location_ids\<close>. A
  point of interest without \<^verbatim>\<open>id\<close> is not: \<^verbatim>\<open>poi["id"]\<close> raises \<^verbatim>\<open>KeyError\<close> and
  the formatting of all results is aborted, whatever the library functions are.
\<close>

theorem poi_without_id_aborts:
  "extract_location_ids example_page = Inr [JStr ''loc1'']
   \<and> format_local_results lib
        (JObj [(''results'', JArr [JObj [(''id'', JStr ''loc1''), (''name'', JStr ''Cafe'')],
                                   JObj [(''name'', JStr ''Bar'')]])])
        example_descriptions
     = Inl KeyError"
  by (simp add: extract_location_ids_def example_page_def format_local_results_def
      local_result_blocks_def local_block_def format_address_def format_rating_def
      py_join_def join_values_def description_of_def example_descriptions_def)


section \<open>Properties of the homepage lookup\<close>

text \<open>
  What each loop does with a result whose URL has the host \<open>host\<close>: the first
  rejects it when a name of the set occurs anywhere in the host, the second only
  when the host is a name of the set.
\<close>

lemma first_pass_rejects_substring:
  assumes "map_of r ''url'' = Some u" and "urlparse_hostname lib u = Inr (Some host)"
    and "domain \<in> set BLACKLIST" and "str_in domain host"
  shows "first_pass lib company (JObj r # rs) = first_pass lib company rs"
  using assms
  by (auto simp add: is_official_candidate_def host_or_empty_def list_ex_iff)

lemma second_pass_accepts_non_member:
  assumes "map_of r ''url'' = Some u" and "urlparse_hostname lib u = Inr (Some host)"
    and "host \<notin> set BLACKLIST"
  shows "second_pass lib (JObj r # rs) = Inr (Some u)"
  using assms by simp

text \<open>
  C7. The first loop rejects a host that contains a name of the set as a substring;
  the second loop only rejects a host that is an element of the set. The host
  \<^verbatim>\<open>en.wikipedia.org\<close> ends with \<^verbatim>\<open>wikipedia.org\<close> and is rejected by the first
  loop, but it is no element of the set, so the second loop returns the Wikipedia
  article as the homepage when it is the only result.
\<close>

theorem second_pass_accepts_denied_host:
  "example_hostname (JStr wikipedia_url) = Inr (Some ''en.wikipedia.org'')
   \<and> suffix ''wikipedia.org'' ''en.wikipedia.org''
   \<and> is_official_candidate example_lib (JStr wikipedia_url) ''Acme'' = Inr False
   \<and> scan_results example_lib ''Acme'' wikipedia_only = Inr (Some (JStr wikipedia_url))
   \<and> get_brave_homepage example_lib wikipedia_env ''Acme'' 10 0 = (JStr wikipedia_url, 1)
   \<and> resolve example_lib wikipedia_env ''Acme'' 0 = (JStr wikipedia_url, 1)"
  by code_simp


lemma claims_of_missing_property:
  assumes "raise_for_status r = Inr ()" and "body r = Some (JObj b)"
    and "map_of b ''claims'' = Some (JObj c)" and "map_of c ''P856'' = None"
  shows "claims_of (Inr r) = Inr (JArr [])"
  using assms by (simp add: claims_of_def json_of_def)

lemma claims_of_property:
  assumes "raise_for_status r = Inr ()" and "body r = Some (JObj b)"
    and "map_of b ''claims'' = Some (JObj c)" and "map_of c ''P856'' = Some x"
  shows "claims_of (Inr r) = Inr x"
  using assms by (simp add: claims_of_def json_of_def)

lemma search_of_first_match:
  assumes "raise_for_status r = Inr ()" and "body r = Some (JObj b)"
    and "map_of b ''search'' = Some (JArr (JObj m # rest))" and "map_of m ''id'' = Some qid"
  shows "search_of (Inr r) = Inr (JArr (JObj m # rest))
         \<and> first_id (JArr (JObj m # rest)) = Inr qid"
  using assms by (simp add: search_of_def json_of_def first_id_def)

lemma first_value_verbatim:
  assumes "map_of st ''mainsnak'' = Some (JObj ms)" and "map_of ms ''datavalue'' = Some (JObj dv)"
    and "map_of dv ''value'' = Some v"
  shows "first_value (JArr (JObj st # rest)) = Inr v"
  using assms by (simp add: first_value_def)

lemma wikidata_no_match:
  assumes "http_get env (wikidata_search_request name) w = (res, w1)"
    and "(\<exists>e. search_of res = Inl e) \<or> search_of res = Inr (JArr [])"
  shows "get_wikidata_homepage env name w = (JNull, w1)"
  using assms by (auto simp add: get_wikidata_homepage_def)

lemma wikidata_first_match:
  assumes "http_get env (wikidata_search_request name) w = (Inr r1, w1)"
    and "raise_for_status r1 = Inr ()" and "body r1 = Some (JObj b1)"
    and "map_of b1 ''search'' = Some (JArr (JObj m # rest))" and "map_of m ''id'' = Some qid"
    and "http_get env (wikidata_claims_request qid) w1 = (res2, w2)"
  shows "get_wikidata_homepage env name w =
           (case claims_of res2 of
              Inl e \<Rightarrow> JNull
            | Inr claims \<Rightarrow>
                if py_truth claims
                then (case first_value claims of Inl e \<Rightarrow> JNull | Inr v \<Rightarrow> v)
                else JNull,
            w2)"
  using assms search_of_first_match [of r1 b1 m rest qid]
  by (auto simp add: get_wikidata_homepage_def split: sum.splits)


text \<open>
  The payloads behind a value that the knowledge-base lookup returns: each step that
  succeeds fixes the shape of what it read.
\<close>

lemma status_ok_iff:
  "raise_for_status r = Inr () \<longleftrightarrow> 200 \<le> status_code r \<and> status_code r < 300"
  by (simp add: raise_for_status_def)

lemma search_of_shape:
  assumes "search_of res = Inr search" and "py_truth search"
  shows "\<exists>r1 b1. res = Inr r1 \<and> 200 \<le> status_code r1 \<and> status_code r1 < 300
           \<and> body r1 = Some (JObj b1) \<and> map_of b1 ''search'' = Some search"
proof -
  from assms(1) obtain r1 where r1: "res = Inr r1" by (cases res) (simp_all add: search_of_def)
  with assms(1) have ok: "raise_for_status r1 = Inr ()"
    by (cases "raise_for_status r1") (simp_all add: search_of_def)
  with r1 assms(1) obtain j where j: "body r1 = Some j" "py_get j ''search'' (JArr []) = Inr search"
    by (cases "body r1") (simp_all add: search_of_def json_of_def)
  then obtain b1 where b1: "j = JObj b1" by (cases j) simp_all
  with j assms(2) have "map_of b1 ''search'' = Some search"
    by (cases "map_of b1 ''search''") auto
  with r1 ok j b1 show ?thesis by (simp add: status_ok_iff)
qed

lemma claims_of_shape:
  assumes "claims_of res = Inr claims" and "py_truth claims"
  shows "\<exists>r2 b2 c. res = Inr r2 \<and> 200 \<le> status_code r2 \<and> status_code r2 < 300
           \<and> body r2 = Some (JObj b2) \<and> map_of b2 ''claims'' = Some (JObj c)
           \<and> map_of c ''P856'' = Some claims"
proof -
  from assms(1) obtain r2 where r2: "res = Inr r2" by (cases res) (simp_all add: claims_of_def)
  with assms(1) have ok: "raise_for_status r2 = Inr ()"
    by (cases "raise_for_status r2") (simp_all add: claims_of_def)
  with r2 assms(1) obtain j where j: "body r2 = Some j"
    "bind_err (py_get j ''claims'' (JObj [])) (\<lambda>c. py_get c ''P856'' (JArr [])) = Inr claims"
    by (cases "body r2") (simp_all add: claims_of_def json_of_def)
  then obtain b2 where b2: "j = JObj b2" by (cases j) simp_all
  define cd where "cd = (case map_of b2 ''claims'' of Some x \<Rightarrow> x | None \<Rightarrow> JObj [])"
  with j b2 have pc: "py_get cd ''P856'' (JArr []) = Inr claims" by simp
  then obtain c where c: "cd = JObj c" by (cases cd) simp_all
  with pc assms(2) have p: "map_of c ''P856'' = Some claims"
    by (cases "map_of c ''P856''") auto
  from c cd_def p have "map_of b2 ''claims'' = Some (JObj c)"
    by (cases "map_of b2 ''claims''") auto
  with r2 ok j b2 p show ?thesis by (simp add: status_ok_iff)
qed

lemma first_id_shape:
  assumes "first_id search = Inr qid"
  shows "\<exists>m rest. search = JArr (JObj m # rest) \<and> map_of m ''id'' = Some qid"
proof -
  from assms obtain first where f: "py_index0 search = Inr first" "py_index first ''id'' = Inr qid"
    by (cases "py_index0 search") (simp_all add: first_id_def)
  from f(2) obtain m where m: "first = JObj m" by (cases first) simp_all
  with f(2) have i: "map_of m ''id'' = Some qid" by (cases "map_of m ''id''") simp_all
  from f(1) m obtain rest where "search = JArr (JObj m # rest)"
    by (cases search rule: py_index0.cases) simp_all
  with i show ?thesis by blast
qed

lemma py_index_shape:
  "py_index x k = Inr v \<Longrightarrow> \<exists>kvs. x = JObj kvs \<and> map_of kvs k = Some v"
  by (cases x) (auto split: option.splits)

lemma first_value_shape:
  assumes "first_value claims = Inr v"
  shows "\<exists>st sts ms dv. claims = JArr (JObj st # sts)
           \<and> map_of st ''mainsnak'' = Some (JObj ms)
           \<and> map_of ms ''datavalue'' = Some (JObj dv) \<and> map_of dv ''value'' = Some v"
proof -
  from assms obtain c where c: "py_index0 claims = Inr c"
    "bind_err (py_index c ''mainsnak'') (\<lambda>m.
       bind_err (py_index m ''datavalue'') (\<lambda>d. py_index d ''value'')) = Inr v"
    by (cases "py_index0 claims") (simp_all add: first_value_def)
  from c(2) obtain m where m: "py_index c ''mainsnak'' = Inr m"
    "bind_err (py_index m ''datavalue'') (\<lambda>d. py_index d ''value'') = Inr v"
    by (cases "py_index c ''mainsnak''") simp_all
  from m(2) obtain d where d: "py_index m ''datavalue'' = Inr d" "py_index d ''value'' = Inr v"
    by (cases "py_index m ''datavalue''") simp_all
  from m(1) obtain st where st: "c = JObj st" "map_of st ''mainsnak'' = Some m"
    using py_index_shape by blast
  from d(1) obtain ms where ms: "m = JObj ms" "map_of ms ''datavalue'' = Some d"
    using py_index_shape by blast
  from d(2) obtain dv where dv: "d = JObj dv" "map_of dv ''value'' = Some v"
    using py_index_shape by blast
  from c(1) st obtain sts where "claims = JArr (JObj st # sts)"
    by (cases claims rule: py_index0.cases) simp_all
  with st ms dv show ?thesis by blast
qed

lemma wikidata_candidate_only_if:
  assumes "fst (get_wikidata_homepage env name w) \<noteq> JNull"
  shows "\<exists>res w1 search qid res2 w2 claims.
      http_get env (wikidata_search_request name) w = (res, w1)
    \<and> search_of res = Inr search \<and> py_truth search \<and> first_id search = Inr qid
    \<and> http_get env (wikidata_claims_request qid) w1 = (res2, w2)
    \<and> claims_of res2 = Inr claims \<and> py_truth claims
    \<and> first_value claims = Inr (fst (get_wikidata_homepage env name w))
    \<and> snd (get_wikidata_homepage env name w) = w2"
proof -
  obtain res w1 where g1: "http_get env (wikidata_search_request name) w = (res, w1)"
    by (cases "http_get env (wikidata_search_request name) w")
  from assms g1 obtain search where s: "search_of res = Inr search" "py_truth search"
    by (cases "search_of res") (auto simp add: get_wikidata_homepage_def split: if_splits)
  from assms g1 s obtain qid where q: "first_id search = Inr qid"
    by (cases "first_id search") (auto simp add: get_wikidata_homepage_def)
  obtain res2 w2 where g2: "http_get env (wikidata_claims_request qid) w1 = (res2, w2)"
    by (cases "http_get env (wikidata_claims_request qid) w1")
  from assms g1 s q g2 obtain claims where c: "claims_of res2 = Inr claims" "py_truth claims"
    by (cases "claims_of res2") (auto simp add: get_wikidata_homepage_def split: if_splits)
  from assms g1 s q g2 c obtain v where v: "first_value claims = Inr v"
    by (cases "first_value claims") (auto simp add: get_wikidata_homepage_def)
  with g1 s q g2 c have "get_wikidata_homepage env name w = (v, w2)"
    by (simp add: get_wikidata_homepage_def)
  with g1 s q g2 c v show ?thesis by auto
qed

lemma chain_first:
  "get_brave_homepage lib env name 10 w = (u, wa) \<and> py_truth u
      \<longrightarrow> resolve lib env name w = (u, wa)"
  by (simp add: resolve_def py_or_def)

lemma chain_second:
  "get_brave_homepage lib env name 10 w = (u, wa) \<and> \<not> py_truth u
        \<and> get_wikidata_homepage env name wa = (x, wb)
      \<longrightarrow> resolve lib env name w = (if py_truth x then x else JStr ''Not found'', wb)"
  by (simp add: resolve_def py_or_def)

lemma kb_value:
  "http_get env
            \<lparr>url = ''https://www.wikidata.org/w/api.php'',
              params = [(''action'', JStr ''wbsearchentities''), (''format'', JStr ''json''),
                        (''language'', JStr ''en''), (''search'', JStr name)]\<rparr> w = (Inr r1, w1)
        \<and> 200 \<le> status_code r1 \<and> status_code r1 < 300 \<and> body r1 = Some (JObj b1)
        \<and> map_of b1 ''search'' = Some (JArr (JObj m # rest)) \<and> map_of m ''id'' = Some qid
        \<and> http_get env
            \<lparr>url = ''https://www.wikidata.org/w/api.php'',
              params = [(''action'', JStr ''wbgetclaims''), (''format'', JStr ''json''),
                        (''entity'', qid), (''property'', JStr ''P856'')]\<rparr> w1 = (Inr r2, w2)
        \<and> 200 \<le> status_code r2 \<and> status_code r2 < 300 \<and> body r2 = Some (JObj b2)
        \<and> map_of b2 ''claims'' = Some (JObj c)
        \<and> map_of c ''P856'' = Some (JArr (JObj st # sts))
        \<and> map_of st ''mainsnak'' = Some (JObj ms)
        \<and> map_of ms ''datavalue'' = Some (JObj dv) \<and> map_of dv ''value'' = Some v
      \<longrightarrow> get_wikidata_homepage env name w = (v, w2)"
  by (simp add: get_wikidata_homepage_def search_of_def claims_of_def raise_for_status_def
      json_of_def first_id_def first_value_def wikidata_search_request_def
      wikidata_claims_request_def WIKIDATA_SEARCH_def WIKIDATA_ENTITY_def)

lemma kb_only_if:
  "fst (get_wikidata_homepage env name w) \<noteq> JNull
      \<longrightarrow> (\<exists>r1 w1 b1 m rest qid r2 w2 b2 c st sts ms dv.
          http_get env
            \<lparr>url = ''https://www.wikidata.org/w/api.php'',
              params = [(''action'', JStr ''wbsearchentities''), (''format'', JStr ''json''),
                        (''language'', JStr ''en''), (''search'', JStr name)]\<rparr> w = (Inr r1, w1)
        \<and> 200 \<le> status_code r1 \<and> status_code r1 < 300 \<and> body r1 = Some (JObj b1)
        \<and> map_of b1 ''search'' = Some (JArr (JObj m # rest)) \<and> map_of m ''id'' = Some qid
        \<and> http_get env
            \<lparr>url = ''https://www.wikidata.org/w/api.php'',
              params = [(''action'', JStr ''wbgetclaims''), (''format'', JStr ''json''),
                        (''entity'', qid), (''property'', JStr ''P856'')]\<rparr> w1 = (Inr r2, w2)
        \<and> 200 \<le> status_code r2 \<and> status_code r2 < 300 \<and> body r2 = Some (JObj b2)
        \<and> map_of b2 ''claims'' = Some (JObj c)
        \<and> map_of c ''P856'' = Some (JArr (JObj st # sts))
        \<and> map_of st ''mainsnak'' = Some (JObj ms)
        \<and> map_of ms ''datavalue'' = Some (JObj dv) \<and> map_of dv ''value'' = Some (fst (get_wikidata_homepage env name w))
        \<and> snd (get_wikidata_homepage env name w) = w2)"
proof
  assume a: "fst (get_wikidata_homepage env name w) \<noteq> JNull"
  from wikidata_candidate_only_if [OF a] obtain res w1 search qid res2 w2 claims where
    h: "http_get env (wikidata_search_request name) w = (res, w1)"
       "search_of res = Inr search" "py_truth search" "first_id search = Inr qid"
       "http_get env (wikidata_claims_request qid) w1 = (res2, w2)"
       "claims_of res2 = Inr claims" "py_truth claims"
       "first_value claims = Inr (fst (get_wikidata_homepage env name w))"
       "snd (get_wikidata_homepage env name w) = w2"
    by blast
  from search_of_shape [OF h(2) h(3)] obtain r1 b1 where
    s: "res = Inr r1" "200 \<le> status_code r1" "status_code r1 < 300"
       "body r1 = Some (JObj b1)" "map_of b1 ''search'' = Some search"
    by blast
  from first_id_shape [OF h(4)] obtain m rest where
    f: "search = JArr (JObj m # rest)" "map_of m ''id'' = Some qid"
    by blast
  from claims_of_shape [OF h(6) h(7)] obtain r2 b2 c where
    c: "res2 = Inr r2" "200 \<le> status_code r2" "status_code r2 < 300"
       "body r2 = Some (JObj b2)" "map_of b2 ''claims'' = Some (JObj c)"
       "map_of c ''P856'' = Some claims"
    by blast
  from first_value_shape [OF h(8)] obtain st sts ms dv where
    v: "claims = JArr (JObj st # sts)" "map_of st ''mainsnak'' = Some (JObj ms)"
       "map_of ms ''datavalue'' = Some (JObj dv)"
       "map_of dv ''value'' = Some (fst (get_wikidata_homepage env name w))"
    by blast
  from h(1) h(5) h(9) s f c v
  show "\<exists>r1 w1 b1 m rest qid r2 w2 b2 c st sts ms dv.
          http_get env
            \<lparr>url = ''https://www.wikidata.org/w/api.php'',
              params = [(''action'', JStr ''wbsearchentities''), (''format'', JStr ''json''),
                        (''language'', JStr ''en''), (''search'', JStr name)]\<rparr> w = (Inr r1, w1)
        \<and> 200 \<le> status_code r1 \<and> status_code r1 < 300 \<and> body r1 = Some (JObj b1)
        \<and> map_of b1 ''search'' = Some (JArr (JObj m # rest)) \<and> map_of m ''id'' = Some qid
        \<and> http_get env
            \<lparr>url = ''https://www.wikidata.org/w/api.php'',
              params = [(''action'', JStr ''wbgetclaims''), (''format'', JStr ''json''),
                        (''entity'', qid), (''property'', JStr ''P856'')]\<rparr> w1 = (Inr r2, w2)
        \<and> 200 \<le> status_code r2 \<and> status_code r2 < 300 \<and> body r2 = Some (JObj b2)
        \<and> map_of b2 ''claims'' = Some (JObj c)
        \<and> map_of c ''P856'' = Some (JArr (JObj st # sts))
        \<and> map_of st ''mainsnak'' = Some (JObj ms)
        \<and> map_of ms ''datavalue'' = Some (JObj dv) \<and> map_of dv ''value'' = Some (fst (get_wikidata_homepage env name w))
        \<and> snd (get_wikidata_homepage env name w) = w2"
    unfolding wikidata_search_request_def wikidata_claims_request_def WIKIDATA_SEARCH_def
      WIKIDATA_ENTITY_def
    by blast
qed

lemma kb_no_match:
  "http_get env
            \<lparr>url = ''https://www.wikidata.org/w/api.php'',
              params = [(''action'', JStr ''wbsearchentities''), (''format'', JStr ''json''),
                        (''language'', JStr ''en''), (''search'', JStr name)]\<rparr> w = (res, w1)
        \<and> (res = Inl e
             \<or> (\<exists>r. res = Inr r
                   \<and> (status_code r < 200 \<or> 300 \<le> status_code r \<or> body r = None
                        \<or> (\<exists>b. body r = Some (JObj b)
                                \<and> (map_of b ''search'' = None
                                     \<or> map_of b ''search'' = Some (JArr []))))))
      \<longrightarrow> get_wikidata_homepage env name w = (JNull, w1)"
  by (auto simp add: get_wikidata_homepage_def search_of_def raise_for_status_def
      json_of_def wikidata_search_request_def WIKIDATA_SEARCH_def)

lemma kb_no_property:
  "http_get env
            \<lparr>url = ''https://www.wikidata.org/w/api.php'',
              params = [(''action'', JStr ''wbsearchentities''), (''format'', JStr ''json''),
                        (''language'', JStr ''en''), (''search'', JStr name)]\<rparr> w = (Inr r1, w1)
        \<and> 200 \<le> status_code r1 \<and> status_code r1 < 300 \<and> body r1 = Some (JObj b1)
        \<and> map_of b1 ''search'' = Some (JArr (JObj m # rest)) \<and> map_of m ''id'' = Some qid
        \<and> http_get env
            \<lparr>url = ''https://www.wikidata.org/w/api.php'',
              params = [(''action'', JStr ''wbgetclaims''), (''format'', JStr ''json''),
                        (''entity'', qid), (''property'', JStr ''P856'')]\<rparr> w1 = (res2, w2)
        \<and> (res2 = Inl e
             \<or> (\<exists>r. res2 = Inr r
                   \<and> (status_code r < 200 \<or> 300 \<le> status_code r \<or> body r = None
                        \<or> (\<exists>b. body r = Some (JObj b)
                                \<and> (map_of b ''claims'' = None
                                     \<or> (\<exists>c. map_of b ''claims'' = Some (JObj c)
                                           \<and> map_of c ''P856'' = None))))))
      \<longrightarrow> get_wikidata_homepage env name w = (JNull, w2)"
  by (auto simp add: get_wikidata_homepage_def search_of_def claims_of_def raise_for_status_def
      json_of_def first_id_def wikidata_search_request_def
      wikidata_claims_request_def WIKIDATA_SEARCH_def WIKIDATA_ENTITY_def)

text \<open>
  C8. The main program asks the search engine first and the knowledge base only when
  the search engine gave nothing (\<^verbatim>\<open>None\<close> or an empty URL); the first non-empty
  answer is the result, and \<^verbatim>\<open>"Not found"\<close> is the result when neither answers. The
  knowledge-base lookup searches for the name, asks for the property \<^verbatim>\<open>P856\<close> of the
  identifier of the first match, and returns the value of the first statement as it
  is. It gives \<^verbatim>\<open>None\<close> in every other case: it gives a value only when both requests,
  as written out here, were answered with a good status and a payload of the
  expected shape; an exception of a request, a bad status, a body that does not
  decode, an empty list of matches and a missing \<^verbatim>\<open>P856\<close> all give \<^verbatim>\<open>None\<close>.
\<close>

theorem resolver_chain:
  "(get_brave_homepage lib env name 10 w = (u, wa) \<and> py_truth u
      \<longrightarrow> resolve lib env name w = (u, wa))
   \<and> (get_brave_homepage lib env name 10 w = (u, wa) \<and> \<not> py_truth u
        \<and> get_wikidata_homepage env name wa = (x, wb)
      \<longrightarrow> resolve lib env name w = (if py_truth x then x else JStr ''Not found'', wb))
   \<and> (http_get env
            \<lparr>url = ''https://www.wikidata.org/w/api.php'',
              params = [(''action'', JStr ''wbsearchentities''), (''format'', JStr ''json''),
                        (''language'', JStr ''en''), (''search'', JStr name)]\<rparr> w = (Inr r1, w1)
        \<and> 200 \<le> status_code r1 \<and> status_code r1 < 300 \<and> body r1 = Some (JObj b1)
        \<and> map_of b1 ''search'' = Some (JArr (JObj m # rest)) \<and> map_of m ''id'' = Some qid
        \<and> http_get env
            \<lparr>url = ''https://www.wikidata.org/w/api.php'',
              params = [(''action'', JStr ''wbgetclaims''), (''format'', JStr ''json''),
                        (''entity'', qid), (''property'', JStr ''P856'')]\<rparr> w1 = (Inr r2, w2)
        \<and> 200 \<le> status_code r2 \<and> status_code r2 < 300 \<and> body r2 = Some (JObj b2)
        \<and> map_of b2 ''claims'' = Some (JObj c)
        \<and> map_of c ''P856'' = Some (JArr (JObj st # sts))
        \<and> map_of st ''mainsnak'' = Some (JObj ms)
        \<and> map_of ms ''datavalue'' = Some (JObj dv) \<and> map_of dv ''value'' = Some v
      \<longrightarrow> get_wikidata_homepage env name w = (v, w2))
   \<and> (fst (get_wikidata_homepage env name w) \<noteq> JNull
      \<longrightarrow> (\<exists>r1 w1 b1 m rest qid r2 w2 b2 c st sts ms dv.
          http_get env
            \<lparr>url = ''https://www.wikidata.org/w/api.php'',
              params = [(''action'', JStr ''wbsearchentities''), (''format'', JStr ''json''),
                        (''language'', JStr ''en''), (''search'', JStr name)]\<rparr> w = (Inr r1, w1)
        \<and> 200 \<le> status_code r1 \<and> status_code r1 < 300 \<and> body r1 = Some (JObj b1)
        \<and> map_of b1 ''search'' = Some (JArr (JObj m # rest)) \<and> map_of m ''id'' = Some qid
        \<and> http_get env
            \<lparr>url = ''https://www.wikidata.org/w/api.php'',
              params = [(''action'', JStr ''wbgetclaims''), (''format'', JStr ''json''),
                        (''entity'', qid), (''property'', JStr ''P856'')]\<rparr> w1 = (Inr r2, w2)
        \<and> 200 \<le> status_code r2 \<and> status_code r2 < 300 \<and> body r2 = Some (JObj b2)
        \<and> map_of b2 ''claims'' = Some (JObj c)
        \<and> map_of c ''P856'' = Some (JArr (JObj st # sts))
        \<and> map_of st ''mainsnak'' = Some (JObj ms)
        \<and> map_of ms ''datavalue'' = Some (JObj dv) \<and> map_of dv ''value'' = Some (fst (get_wikidata_homepage env name w))
        \<and> snd (get_wikidata_homepage env name w) = w2))
   \<and> (http_get env
            \<lparr>url = ''https://www.wikidata.org/w/api.php'',
              params = [(''action'', JStr ''wbsearchentities''), (''format'', JStr ''json''),
                        (''language'', JStr ''en''), (''search'', JStr name)]\<rparr> w = (res, w1)
        \<and> (res = Inl e
             \<or> (\<exists>r. res = Inr r
                   \<and> (status_code r < 200 \<or> 300 \<le> status_code r \<or> body r = None
                        \<or> (\<exists>b. body r = Some (JObj b)
                                \<and> (map_of b ''search'' = None
                                     \<or> map_of b ''search'' = Some (JArr []))))))
      \<longrightarrow> get_wikidata_homepage env name w = (JNull, w1))
   \<and> (http_get env
            \<lparr>url = ''https://www.wikidata.org/w/api.php'',
              params = [(''action'', JStr ''wbsearchentities''), (''format'', JStr ''json''),
                        (''language'', JStr ''en''), (''search'', JStr name)]\<rparr> w = (Inr r1, w1)
        \<and> 200 \<le> status_code r1 \<and> status_code r1 < 300 \<and> body r1 = Some (JObj b1)
        \<and> map_of b1 ''search'' = Some (JArr (JObj m # rest)) \<and> map_of m ''id'' = Some qid
        \<and> http_get env
            \<lparr>url = ''https://www.wikidata.org/w/api.php'',
              params = [(''action'', JStr ''wbgetclaims''), (''format'', JStr ''json''),
                        (''entity'', qid), (''property'', JStr ''P856'')]\<rparr> w1 = (res2, w2)
        \<and> (res2 = Inl e
             \<or> (\<exists>r. res2 = Inr r
                   \<and> (status_code r < 200 \<or> 300 \<le> status_code r \<or> body r = None
                        \<or> (\<exists>b. body r = Some (JObj b)
                                \<and> (map_of b ''claims'' = None
                                     \<or> (\<exists>c. map_of b ''claims'' = Some (JObj c)
                                           \<and> map_of c ''P856'' = None))))))
      \<longrightarrow> get_wikidata_homepage env name w = (JNull, w2))"
  using chain_first [of lib env name w u wa] chain_second [of lib env name w u wa x wb]
    kb_value [of env name w r1 w1 b1 m rest qid r2 w2 b2 c st sts ms dv v]
    kb_only_if [of env name w] kb_no_match [of env name w res w1 e]
    kb_no_property [of env name w r1 w1 b1 m rest qid res2 w2 e]
  by (intro conjI)


theorem resolver_chain_witness:
  "resolve example_lib kb_env ''Acme'' []
     = (JStr ''https://acme.org/'',
        [\<lparr>url = ''https://api.search.brave.com/res/v1/web/search'',
          params = [(''q'', JStr ([CHR 0x22] @ ''Acme'' @ [CHR 0x22] @ '' official website'')),
                    (''count'', JNum 10)]\<rparr>,
         \<lparr>url = ''https://www.wikidata.org/w/api.php'',
          params = [(''action'', JStr ''wbsearchentities''), (''format'', JStr ''json''),
                    (''language'', JStr ''en''), (''search'', JStr ''Acme'')]\<rparr>,
         \<lparr>url = ''https://www.wikidata.org/w/api.php'',
          params = [(''action'', JStr ''wbgetclaims''), (''format'', JStr ''json''),
                    (''entity'', JStr ''Q1''), (''property'', JStr ''P856'')]\<rparr>])
   \<and> get_wikidata_homepage empty_env ''Acme'' 1 = (JNull, 2)
   \<and> resolve example_lib empty_env ''Acme'' 0 = (JStr ''Not found'', 2)"
proof -
  let ?br = "\<lparr>url = ''https://api.search.brave.com/res/v1/web/search'',
          params = [(''q'', JStr ([CHR 0x22] @ ''Acme'' @ [CHR 0x22] @ '' official website'')),
                    (''count'', JNum 10)]\<rparr>"
  let ?sr = "\<lparr>url = ''https://www.wikidata.org/w/api.php'',
          params = [(''action'', JStr ''wbsearchentities''), (''format'', JStr ''json''),
                    (''language'', JStr ''en''), (''search'', JStr ''Acme'')]\<rparr>"
  let ?cr = "\<lparr>url = ''https://www.wikidata.org/w/api.php'',
          params = [(''action'', JStr ''wbgetclaims''), (''format'', JStr ''json''),
                    (''entity'', JStr ''Q1''), (''property'', JStr ''P856'')]\<rparr>"
  have b: "get_brave_homepage example_lib kb_env ''Acme'' 10 [] = (JNull, [?br])"
    "get_brave_homepage example_lib empty_env ''Acme'' 10 0 = (JNull, 1)"
    by (simp_all add: get_brave_homepage_def homepage_search_request_def SEARCH_URL_def
        kb_env_def empty_env_def brave_candidate_def ok_response_def raise_for_status_def
        json_of_def scan_results_def)
  have g1: "http_get kb_env ?sr [?br] = (Inr (ok_response kb_search_body), [?br, ?sr])"
    by (simp add: kb_env_def)
  have g2: "http_get kb_env ?cr [?br, ?sr] = (Inr (ok_response kb_claims_body), [?br, ?sr, ?cr])"
    by (simp add: kb_env_def)
  have kb: "get_wikidata_homepage kb_env ''Acme'' [?br]
              = (JStr ''https://acme.org/'', [?br, ?sr, ?cr])"
    by (rule resolver_chain [where env = kb_env and name = "''Acme''" and w = "[?br]"
        and ?w1.0 = "[?br, ?sr]"
        and ?r1.0 = "ok_response kb_search_body"
        and ?b1.0 = "[(''search'', JArr [JObj [(''id'', JStr ''Q1'')]])]"
        and m = "[(''id'', JStr ''Q1'')]" and rest = "[]" and qid = "JStr ''Q1''"
        and ?w2.0 = "[?br, ?sr, ?cr]"
        and ?r2.0 = "ok_response kb_claims_body"
        and ?b2.0 = "[(''claims'', JObj [(''P856'', JArr [JObj [(''mainsnak'',
               JObj [(''datavalue'', JObj [(''value'', JStr ''https://acme.org/'')])])]])])]"
        and c = "[(''P856'', JArr [JObj [(''mainsnak'',
               JObj [(''datavalue'', JObj [(''value'', JStr ''https://acme.org/'')])])]])]"
        and st = "[(''mainsnak'',
               JObj [(''datavalue'', JObj [(''value'', JStr ''https://acme.org/'')])])]"
        and sts = "[]" and ms = "[(''datavalue'', JObj [(''value'', JStr ''https://acme.org/'')])]"
        and dv = "[(''value'', JStr ''https://acme.org/'')]" and v = "JStr ''https://acme.org/''",
        THEN conjunct2, THEN conjunct2, THEN conjunct1, THEN mp])
      (intro conjI g1 g2; simp add: ok_response_def kb_search_body_def kb_claims_body_def)
  have em: "get_wikidata_homepage empty_env ''Acme'' 1 = (JNull, 2)"
    by (rule resolver_chain [where env = empty_env and name = "''Acme''" and w = 1
        and res = "Inr (ok_response (JObj []))" and ?w1.0 = 2,
        THEN conjunct2, THEN conjunct2, THEN conjunct2, THEN conjunct2, THEN conjunct1,
        THEN mp])
      (simp add: empty_env_def ok_response_def)
  have "resolve example_lib kb_env ''Acme'' []
          = (if py_truth (JStr ''https://acme.org/'') then JStr ''https://acme.org/''
             else JStr ''Not found'', [?br, ?sr, ?cr])"
    by (rule resolver_chain [where lib = example_lib and env = kb_env and name = "''Acme''"
        and w = "[]" and u = JNull and wa = "[?br]" and x = "JStr ''https://acme.org/''"
        and wb = "[?br, ?sr, ?cr]", THEN conjunct2, THEN conjunct1, THEN mp])
      (intro conjI b(1) kb, simp)
  then have r1: "resolve example_lib kb_env ''Acme'' []
                   = (JStr ''https://acme.org/'', [?br, ?sr, ?cr])"
    by simp
  have "resolve example_lib empty_env ''Acme'' 0
          = (if py_truth JNull then JNull else JStr ''Not found'', 2)"
    by (rule resolver_chain [where lib = example_lib and env = empty_env and name = "''Acme''"
        and w = 0 and u = JNull and wa = 1 and x = JNull and wb = 2,
        THEN conjunct2, THEN conjunct1, THEN mp])
      (intro conjI b(2) em, simp)
  then have r2: "resolve example_lib empty_env ''Acme'' 0 = (JStr ''Not found'', 2)"
    by simp
  from r1 em r2 show ?thesis by (intro conjI)
qed
end
